theory Spec2Isabelle
  imports Complex_Main
begin

section \<open>The drawing primitives the two scripts call\<close>

text \<open>
  Both scripts are straight-line Python over a plotting library: they create a figure,
  add patches, connection patches and texts to its axes, save the figure and close it.
  The artists are modelled as records of the arguments the scripts pass, the axes as the
  list of artists in insertion order, the interpreter state as an explicit store.

  Coordinates are Python floats in the source. They are modelled as exact rationals:
  every literal has at most two decimals, and no property below depends on rounding in
  the last binary digit.

  Python strings are modelled as \<open>string\<close>; the three non-ASCII characters the scripts
  use appear as their UTF-8 bytes. The separators the scripts split on are ASCII, so
  splitting bytes and splitting code points agree.
\<close>

type_synonym point = "rat \<times> rat"

datatype boxstyle = Round rat
  \<comment> \<open>\<open>"round,pad=p"\<close>\<close>

datatype coords = Data
  \<comment> \<open>\<open>"data"\<close>: the point is given in the axes' data coordinates\<close>

datatype arrowstyle = Plain | Arrow
  \<comment> \<open>\<open>"-"\<close> (no head) and \<open>"->"\<close> (one open head at the end B)\<close>

datatype connectionstyle = Arc3 rat
  \<comment> \<open>\<open>"arc3,rad=r"\<close>; \<open>rad = 0\<close> is the straight segment\<close>

datatype linestyle = Solid | Dashed

datatype halign = HLeft | HCenter | HRight

datatype valign = VBaseline | VBottom | VCenter | VTop

datatype fontweight = NormalWeight | Bold

datatype fontstyle = NormalStyle | Italic

record fancy_bbox_patch =
  xy :: point
  width :: rat
  height :: rat
  boxstyle :: boxstyle
  facecolor :: string
  edgecolor :: string
  linewidth :: rat
  alpha :: "rat option"

definition FancyBboxPatch ::
  "point \<Rightarrow> rat \<Rightarrow> rat \<Rightarrow> boxstyle \<Rightarrow> string \<Rightarrow> string \<Rightarrow> rat \<Rightarrow> rat option \<Rightarrow> fancy_bbox_patch"
where
  "FancyBboxPatch p w h bs fcol ecol lw a =
     \<lparr>xy = p, width = w, height = h, boxstyle = bs, facecolor = fcol, edgecolor = ecol,
      linewidth = lw, alpha = a\<rparr>"

record connection_patch =
  xyA :: point
  xyB :: point
  coordsA :: coords
  coordsB :: coords
  arrowstyle :: arrowstyle
  connectionstyle :: connectionstyle
  shrinkA :: rat
  shrinkB :: rat
  mutation_scale :: rat
  fc :: "string option"
  ec :: "string option"
  cp_linewidth :: "rat option"
  cp_linestyle :: linestyle
  cp_color :: "string option"
  cp_alpha :: "rat option"

text \<open>
  The constructor with the library's defaults for every keyword the caller leaves out:
  no arrow head, a straight connection, no shrinking, mutation scale 10.
\<close>

definition ConnectionPatch :: "point \<Rightarrow> point \<Rightarrow> coords \<Rightarrow> coords \<Rightarrow> connection_patch" where
  "ConnectionPatch a b ca cb =
     \<lparr>xyA = a, xyB = b, coordsA = ca, coordsB = cb, arrowstyle = Plain,
      connectionstyle = Arc3 0, shrinkA = 0, shrinkB = 0, mutation_scale = 10,
      fc = None, ec = None, cp_linewidth = None, cp_linestyle = Solid, cp_color = None,
      cp_alpha = None\<rparr>"

record bbox_props =
  bb_boxstyle :: boxstyle
  bb_facecolor :: string
  bb_alpha :: "rat option"

record text_obj =
  tx :: rat
  ty :: rat
  ts :: string
  fontsize :: rat
  fontweight :: fontweight
  ha :: halign
  va :: valign
  style :: fontstyle
  color :: string
  bbox :: "bbox_props option"

text \<open>
  \<open>ax.text(x, y, s, fontsize=n, ...)\<close>: every call of the scripts gives the font size;
  the other keywords default to left/baseline alignment, normal weight and style, black,
  no box.
\<close>

definition Text :: "rat \<Rightarrow> rat \<Rightarrow> string \<Rightarrow> rat \<Rightarrow> text_obj" where
  "Text x y s n =
     \<lparr>tx = x, ty = y, ts = s, fontsize = n, fontweight = NormalWeight, ha = HLeft,
      va = VBaseline, style = NormalStyle, color = ''black'', bbox = None\<rparr>"

datatype artist =
    BoxPatch fancy_bbox_patch
  | Connector connection_patch
  | Label text_obj

section \<open>Strings\<close>

abbreviation NL :: string where
  "NL \<equiv> [CHR 0x0A]"

abbreviation bullet :: string where
  "bullet \<equiv> [CHR 0xE2, CHR 0x80, CHR 0xA2]"

abbreviation updown :: string where
  "updown \<equiv> [CHR 0xE2, CHR 0x86, CHR 0x95]"

text \<open>Python's \<open>s.split(sep)\<close> for a one-character separator.\<close>

fun str_split :: "char \<Rightarrow> string \<Rightarrow> string list" where
  "str_split sep [] = [[]]"
| "str_split sep (c # cs) =
     (if c = sep then [] # str_split sep cs
      else (case str_split sep cs of
              [] \<Rightarrow> [[c]]
            | w # ws \<Rightarrow> (c # w) # ws))"

text \<open>\<open>s.split(sep)[0]\<close>: the list is never empty, so index 0 never raises.\<close>

definition split0 :: "char \<Rightarrow> string \<Rightarrow> string" where
  "split0 sep s = hd (str_split sep s)"

text \<open>Python's \<open>"\n".join(lines)\<close>, for the triple-quoted blocks.\<close>

fun join_lines :: "string list \<Rightarrow> string" where
  "join_lines [] = []"
| "join_lines [l] = l"
| "join_lines (l # ls) = l @ NL @ join_lines ls"

section \<open>Figures, the interpreter state and the calls that change it\<close>

record axes =
  xlim :: "rat \<times> rat"
  ylim :: "rat \<times> rat"
  axison :: bool
  children :: "artist list"

record figure =
  figsize :: "rat \<times> rat"
  fig_axes :: "axes option"
  tight :: bool

text \<open>A figure without axes, as the library makes one when none is open.\<close>

definition blank_figure :: figure where
  "blank_figure = \<lparr>figsize = (6.4, 4.8), fig_axes = None, tight = False\<rparr>"

record image =
  im_dpi :: nat
  im_tight_bbox :: bool
  im_figure :: figure

datatype event = Wrote string image | Printed string

datatype exn = OSError string

text \<open>
  The state of the Python process: the figure objects by identity (the script's \<open>ax\<close>
  and the plotting module's registry refer to the same object), the registry of open
  figures with the current one last, whether the file system accepts a write to a path,
  and what the process has written and printed so far, oldest first.
\<close>

record proc =
  heap :: "nat \<Rightarrow> figure"
  next_id :: nat
  open_figs :: "nat list"
  fs_writable :: "string \<Rightarrow> bool"
  log :: "event list"

definition new_figure :: "figure \<Rightarrow> proc \<Rightarrow> nat \<times> proc" where
  "new_figure f st =
     (next_id st,
      st\<lparr>heap := (heap st)(next_id st := f), next_id := Suc (next_id st),
         open_figs := open_figs st @ [next_id st]\<rparr>)"

text \<open>\<open>fig, ax = plt.subplots(1, 1, figsize=(w, h))\<close>: a new current figure with one axes.\<close>

definition plt_subplots :: "rat \<times> rat \<Rightarrow> proc \<Rightarrow> nat \<times> proc" where
  "plt_subplots sz st =
     new_figure
       \<lparr>figsize = sz,
        fig_axes = Some \<lparr>xlim = (0, 1), ylim = (0, 1), axison = True, children = []\<rparr>,
        tight = False\<rparr> st"

text \<open>The current figure; the library opens a blank one when the registry is empty.\<close>

definition gcf :: "proc \<Rightarrow> nat \<times> proc" where
  "gcf st = (if open_figs st = [] then new_figure blank_figure st else (last (open_figs st), st))"

definition on_axes :: "(axes \<Rightarrow> axes) \<Rightarrow> nat \<Rightarrow> proc \<Rightarrow> proc" where
  "on_axes f ax st =
     st\<lparr>heap := (heap st)(ax := (heap st ax)\<lparr>fig_axes := map_option f (fig_axes (heap st ax))\<rparr>)\<rparr>"

definition ax_set_xlim :: "rat \<Rightarrow> rat \<Rightarrow> nat \<Rightarrow> proc \<Rightarrow> proc" where
  "ax_set_xlim lo hi = on_axes (\<lambda>a. a\<lparr>xlim := (lo, hi)\<rparr>)"

definition ax_set_ylim :: "rat \<Rightarrow> rat \<Rightarrow> nat \<Rightarrow> proc \<Rightarrow> proc" where
  "ax_set_ylim lo hi = on_axes (\<lambda>a. a\<lparr>ylim := (lo, hi)\<rparr>)"

definition ax_axis_off :: "nat \<Rightarrow> proc \<Rightarrow> proc" where
  "ax_axis_off = on_axes (\<lambda>a. a\<lparr>axison := False\<rparr>)"

text \<open>
  The three populating calls append to the axes' children. None of them looks at the
  registry of open figures or at what has been saved: the source has no such guard.
\<close>

definition add_child :: "artist \<Rightarrow> axes \<Rightarrow> axes" where
  "add_child a axs = axs\<lparr>children := children axs @ [a]\<rparr>"

definition ax_add_patch :: "fancy_bbox_patch \<Rightarrow> nat \<Rightarrow> proc \<Rightarrow> proc" where
  "ax_add_patch p = on_axes (add_child (BoxPatch p))"

definition ax_add_artist :: "connection_patch \<Rightarrow> nat \<Rightarrow> proc \<Rightarrow> proc" where
  "ax_add_artist c = on_axes (add_child (Connector c))"

definition ax_text :: "text_obj \<Rightarrow> nat \<Rightarrow> proc \<Rightarrow> proc" where
  "ax_text t = on_axes (add_child (Label t))"

definition plt_tight_layout :: "proc \<Rightarrow> proc" where
  "plt_tight_layout st =
     (case gcf st of (i, st') \<Rightarrow> st'\<lparr>heap := (heap st')(i := (heap st' i)\<lparr>tight := True\<rparr>)\<rparr>)"

text \<open>
  \<open>plt.savefig(path, dpi=d, bbox_inches='tight')\<close> writes the current figure, or raises
  when the path cannot be written; the state at the raise is kept with the exception.
\<close>

definition plt_savefig :: "string \<Rightarrow> nat \<Rightarrow> bool \<Rightarrow> proc \<Rightarrow> exn \<times> proc + proc" where
  "plt_savefig path d tb st =
     (case gcf st of (i, st') \<Rightarrow>
        if fs_writable st' path
        then Inr (st'\<lparr>log := log st' @
                    [Wrote path \<lparr>im_dpi = d, im_tight_bbox = tb, im_figure = heap st' i\<rparr>]\<rparr>)
        else Inl (OSError path, st'))"

text \<open>\<open>plt.close()\<close> takes the current figure out of the registry, if there is one.\<close>

definition plt_close :: "proc \<Rightarrow> proc" where
  "plt_close st = st\<lparr>open_figs := butlast (open_figs st)\<rparr>"

definition print :: "string \<Rightarrow> proc \<Rightarrow> proc" where
  "print msg st = st\<lparr>log := log st @ [Printed msg]\<rparr>"

text \<open>A sequence of calls on the same axes, in source order.\<close>

definition calls :: "(nat \<Rightarrow> proc \<Rightarrow> proc) list \<Rightarrow> nat \<Rightarrow> proc \<Rightarrow> proc" where
  "calls cs ax st = fold (\<lambda>c. c ax) cs st"

text \<open>A process that has not touched the plotting module yet.\<close>

definition fresh :: "(string \<Rightarrow> bool) \<Rightarrow> proc" where
  "fresh w = \<lparr>heap = (\<lambda>_. blank_figure), next_id = 0, open_figs = [], fs_writable = w, log = []\<rparr>"

section \<open>current-architecture-diagram.py\<close>

definition java_color :: string where "java_color = ''#FF6B35''"
definition mitm_color :: string where "mitm_color = ''#F7931E''"
definition audit_color :: string where "audit_color = ''#4ECDC4''"
definition credential_color :: string where "credential_color = ''#45B7D1''"
definition interface_color :: string where "interface_color = ''#96CEB4''"

definition cur_title :: text_obj where
  "cur_title = (Text 5 9.5 ''Current Monolithic Java Audit System'' 18)
     \<lparr>fontweight := Bold, ha := HCenter\<rparr>"

definition main_box :: fancy_bbox_patch where
  "main_box = FancyBboxPatch (0.5, 1) 9 7.5 (Round 0.1) java_color ''black'' 2 (Some 0.3)"

definition main_label :: text_obj where
  "main_label = (Text 5 8.2 ''Java Audit System'' 16)\<lparr>fontweight := Bold, ha := HCenter\<rparr>"

definition mitm_box :: fancy_bbox_patch where
  "mitm_box = FancyBboxPatch (1, 6) 8 1.8 (Round 0.05) mitm_color ''black'' 1 (Some 0.7)"

definition mitm_label :: text_obj where
  "mitm_label = (Text 5 7.5 ''MITM Proxy Layer'' 14)\<lparr>fontweight := Bold, ha := HCenter\<rparr>"

definition mitm_components :: "(string \<times> rat \<times> rat) list" where
  "mitm_components =
     [(''MonitorSSHAudit.java'', 1.5, 6.8),
      (''MonitorVNCAudit.java'', 3.5, 6.8),
      (''Rdp2ProxyHandler.java'', 5.5, 6.8),
      (''SessionInfo.java'', 7.5, 6.8)]"

text \<open>The body of the two component loops of this script: the box, then its text.\<close>

fun comp_box :: "string \<times> rat \<times> rat \<Rightarrow> fancy_bbox_patch" where
  "comp_box (cmp, x, y) =
     FancyBboxPatch (x - 0.4, y - 0.15) 0.8 0.3 (Round 0.02) ''white'' ''black'' 0.5 None"

fun comp_text :: "string \<times> rat \<times> rat \<Rightarrow> text_obj" where
  "comp_text (cmp, x, y) =
     (Text x y (split0 CHR ''.'' cmp) 8)\<lparr>ha := HCenter, va := VCenter\<rparr>"

definition audit_box :: fancy_bbox_patch where
  "audit_box = FancyBboxPatch (1, 3.5) 8 1.8 (Round 0.05) audit_color ''black'' 1 (Some 0.7)"

definition audit_label :: text_obj where
  "audit_label = (Text 5 5 ''Audit Logging Layer'' 14)\<lparr>fontweight := Bold, ha := HCenter\<rparr>"

definition audit_components :: "(string \<times> rat \<times> rat) list" where
  "audit_components =
     [(''AuditFile.java'', 1.5, 4.3),
      (''DatabaseAuditWriter.java'', 3.5, 4.3),
      (''TerminalAuditWriter.java'', 5.5, 4.3),
      (''GuessingConnectionLinker.java'', 7.5, 4.3)]"

definition cred_box :: fancy_bbox_patch where
  "cred_box =
     FancyBboxPatch (1, 1.5) 8 1.2 (Round 0.05) credential_color ''black'' 1 (Some 0.7)"

definition cred_label :: text_obj where
  "cred_label = (Text 5 2.5 ''Credential Injection Service'' 14)
     \<lparr>fontweight := Bold, ha := HCenter\<rparr>"

definition cred_sublabel :: text_obj where
  "cred_sublabel =
     (Text 5 1.9 ''CredentialInjectionService.java (Parent Integration)'' 10)
     \<lparr>ha := HCenter\<rparr>"

text \<open>
  The arrows of this script share their keywords:
  \<open>arrowstyle="->", shrinkA=5, shrinkB=5, mutation_scale=20, fc=col, ec=col\<close>,
  the three coupling arrows with \<open>linewidth=2\<close> as well.
\<close>

definition arrow_kw :: "string \<Rightarrow> connection_patch \<Rightarrow> connection_patch" where
  "arrow_kw col c =
     c\<lparr>arrowstyle := Arrow, shrinkA := 5, shrinkB := 5, mutation_scale := 20,
       fc := Some col, ec := Some col\<rparr>"

definition arrow1 :: connection_patch where
  "arrow1 = (arrow_kw ''red'' (ConnectionPatch (5, 6) (5, 5.3) Data Data))
     \<lparr>cp_linewidth := Some 2\<rparr>"

definition arrow2 :: connection_patch where
  "arrow2 = (arrow_kw ''red'' (ConnectionPatch (5, 6) (5, 2.7) Data Data))
     \<lparr>cp_linewidth := Some 2\<rparr>"

definition arrow3 :: connection_patch where
  "arrow3 = (arrow_kw ''red'' (ConnectionPatch (5, 3.5) (5, 2.7) Data Data))
     \<lparr>cp_linewidth := Some 2\<rparr>"

definition coupling_note :: text_obj where
  "coupling_note = (Text 5.5 5.7 (''Tight'' @ NL @ ''Coupling'') 10)
     \<lparr>ha := HCenter,
      bbox := Some \<lparr>bb_boxstyle = Round 0.3, bb_facecolor = ''red'', bb_alpha = Some 0.3\<rparr>\<rparr>"

definition client_note :: text_obj where
  "client_note = (Text 0.2 7 (''Client'' @ NL @ ''Connections'') 10)
     \<lparr>ha := HCenter, va := VCenter,
      bbox := Some \<lparr>bb_boxstyle = Round 0.2, bb_facecolor = ''lightblue'', bb_alpha = None\<rparr>\<rparr>"

definition client_arrow :: connection_patch where
  "client_arrow = arrow_kw ''blue'' (ConnectionPatch (0.8, 7) (1, 7) Data Data)"

definition problems_text :: string where
  "problems_text = join_lines
     [''Problems with Current Architecture:'',
      bullet @ '' Tight coupling between MITM and audit'',
      bullet @ '' Single point of failure'',
      bullet @ '' Difficult to add web client support'',
      bullet @ '' Complex threading model'',
      bullet @ '' Data loss risk from coupling'']"

definition problems_note :: text_obj where
  "problems_note = (Text 0.5 0.5 problems_text 10)
     \<lparr>va := VBottom,
      bbox := Some \<lparr>bb_boxstyle = Round 0.3, bb_facecolor = ''yellow'', bb_alpha = Some 0.7\<rparr>\<rparr>"

definition current_populate :: "(nat \<Rightarrow> proc \<Rightarrow> proc) list" where
  "current_populate =
     [ax_text cur_title,
      ax_add_patch main_box, ax_text main_label,
      ax_add_patch mitm_box, ax_text mitm_label]
     @ concat (map (\<lambda>c. [ax_add_patch (comp_box c), ax_text (comp_text c)]) mitm_components)
     @ [ax_add_patch audit_box, ax_text audit_label]
     @ concat (map (\<lambda>c. [ax_add_patch (comp_box c), ax_text (comp_text c)]) audit_components)
     @ [ax_add_patch cred_box, ax_text cred_label, ax_text cred_sublabel,
        ax_add_artist arrow1, ax_add_artist arrow2, ax_add_artist arrow3,
        ax_text coupling_note, ax_text client_note,
        ax_add_artist client_arrow,
        ax_text problems_note]"

definition current_path :: string where
  "current_path = ''docs/analysis/current-architecture.png''"

definition current_message :: string where
  "current_message =
     ''Current architecture diagram saved as: docs/analysis/current-architecture.png''"

definition current_main :: "proc \<Rightarrow> exn \<times> proc + proc" where
  "current_main st0 =
     (case plt_subplots (14, 10) st0 of (ax, st1) \<Rightarrow>
       (let st2 = ax_axis_off ax (ax_set_ylim 0 10 ax (ax_set_xlim 0 10 ax st1));
            st3 = calls current_populate ax st2;
            st4 = plt_tight_layout st3
        in (case plt_savefig current_path 300 True st4 of
              Inl e \<Rightarrow> Inl e
            | Inr st5 \<Rightarrow> Inr (print current_message (plt_close st5)))))"

section \<open>proposed-architecture-diagram.py\<close>

text \<open>
  The second script is a module of its own; where it reuses a name of the first for a
  different value, the name carries the prefix \<open>p_\<close> here.
\<close>

definition rust_color :: string where "rust_color = ''#CE422B''"
definition ipc_color :: string where "ipc_color = ''#96CEB4''"
definition web_color :: string where "web_color = ''#45B7D1''"
definition unchanged_color :: string where "unchanged_color = ''#4ECDC4''"

definition p_title :: text_obj where
  "p_title = (Text 6 9.5 ''Proposed Separated Architecture: Rust MITM + Java Audit'' 18)
     \<lparr>fontweight := Bold, ha := HCenter\<rparr>"

definition rust_box :: fancy_bbox_patch where
  "rust_box = FancyBboxPatch (0.5, 5) 4.5 3.5 (Round 0.1) rust_color ''black'' 2 (Some 0.3)"

definition rust_label :: text_obj where
  "rust_label = (Text 2.75 8.2 ''Rust MITM Process'' 16)
     \<lparr>fontweight := Bold, ha := HCenter, color := ''white''\<rparr>"

definition rust_components :: "(string \<times> rat \<times> rat) list" where
  "rust_components =
     [(''SSH MITM'' @ NL @ ''(russh)'', 1.5, 7.5),
      (''RDP MITM'' @ NL @ ''(IronRDP)'', 4, 7.5),
      (''WebSocket'' @ NL @ ''Streaming'', 1.5, 6.5),
      (''Credential Lookup'' @ NL @ ''via IPC'', 4, 6.5),
      (''Protocol State'' @ NL @ ''Management'', 2.75, 5.5)]"

fun rust_comp_box :: "string \<times> rat \<times> rat \<Rightarrow> fancy_bbox_patch" where
  "rust_comp_box (cmp, x, y) =
     FancyBboxPatch (x - 0.4, y - 0.25) 0.8 0.5 (Round 0.02) ''white'' ''black'' 0.5 None"

fun rust_comp_text :: "string \<times> rat \<times> rat \<Rightarrow> text_obj" where
  "rust_comp_text (cmp, x, y) = (Text x y cmp 9)\<lparr>ha := HCenter, va := VCenter\<rparr>"

definition java_box :: fancy_bbox_patch where
  "java_box = FancyBboxPatch (7, 5) 4.5 3.5 (Round 0.1) java_color ''black'' 2 (Some 0.3)"

definition java_label :: text_obj where
  "java_label = (Text 9.25 8.2 ''Java Audit Process'' 16)\<lparr>fontweight := Bold, ha := HCenter\<rparr>"

definition java_components :: "(string \<times> rat \<times> rat) list" where
  "java_components =
     [(''AuditFile.java'' @ NL @ ''(UNCHANGED)'', 8, 7.5),
      (''DatabaseAuditWriter.java'' @ NL @ ''(UNCHANGED)'', 10.5, 7.5),
      (''TerminalAuditWriter.java'' @ NL @ ''(UNCHANGED)'', 8, 6.5),
      (''GuessingConnectionLinker.java'' @ NL @ ''(UNCHANGED)'', 10.5, 6.5),
      (''CredentialInjectionService.java'' @ NL @ ''(UNCHANGED)'', 9.25, 5.5)]"

fun java_comp_box :: "string \<times> rat \<times> rat \<Rightarrow> fancy_bbox_patch" where
  "java_comp_box (cmp, x, y) =
     FancyBboxPatch (x - 0.4, y - 0.25) 0.8 0.5 (Round 0.02) unchanged_color ''black'' 0.5
       (Some 0.8)"

fun java_comp_text :: "string \<times> rat \<times> rat \<Rightarrow> text_obj" where
  "java_comp_text (cmp, x, y) =
     (Text x y (split0 (CHR 0x0A) cmp) 8)\<lparr>ha := HCenter, va := VCenter\<rparr>"

fun java_comp_tag :: "string \<times> rat \<times> rat \<Rightarrow> text_obj" where
  "java_comp_tag (cmp, x, y) =
     (Text x (y - 0.15) ''(UNCHANGED)'' 7)
     \<lparr>ha := HCenter, va := VCenter, style := Italic, color := ''green'', fontweight := Bold\<rparr>"

definition ipc_box :: fancy_bbox_patch where
  "ipc_box = FancyBboxPatch (5.25, 6) 1.5 2 (Round 0.05) ipc_color ''black'' 2 (Some 0.8)"

definition ipc_label :: text_obj where
  "ipc_label = (Text 6 7.5 ''IPC Interface'' 12)\<lparr>fontweight := Bold, ha := HCenter\<rparr>"

definition ipc_components :: "string list" where
  "ipc_components =
     [''Credential Lookup'', ''Audit Events'', ''Session Lifecycle'', ''WebSocket Data'']"

fun ipc_item :: "nat \<times> string \<Rightarrow> text_obj" where
  "ipc_item (i, cmp) =
     (Text 6 (7.2 - of_nat i * 0.2) (bullet @ '' '' @ cmp) 8)\<lparr>ha := HCenter\<rparr>"

definition ipc_arrow1 :: connection_patch where
  "ipc_arrow1 = (arrow_kw ''green'' (ConnectionPatch (5, 7) (5.25, 7) Data Data))
     \<lparr>cp_linewidth := Some 3\<rparr>"

definition ipc_arrow2 :: connection_patch where
  "ipc_arrow2 = (arrow_kw ''green'' (ConnectionPatch (6.75, 7) (7, 7) Data Data))
     \<lparr>cp_linewidth := Some 3\<rparr>"

definition ipc_arrow3 :: connection_patch where
  "ipc_arrow3 = (arrow_kw ''green'' (ConnectionPatch (7, 6.5) (6.75, 6.5) Data Data))
     \<lparr>cp_linewidth := Some 3\<rparr>"

definition ipc_arrow4 :: connection_patch where
  "ipc_arrow4 = (arrow_kw ''green'' (ConnectionPatch (5.25, 6.5) (5, 6.5) Data Data))
     \<lparr>cp_linewidth := Some 3\<rparr>"

definition native_note :: text_obj where
  "native_note = (Text 0.2 7 (''Native'' @ NL @ ''Clients'') 10)
     \<lparr>ha := HCenter, va := VCenter,
      bbox := Some \<lparr>bb_boxstyle = Round 0.2, bb_facecolor = ''lightblue'', bb_alpha = None\<rparr>\<rparr>"

definition web_note :: text_obj where
  "web_note = (Text 0.2 5.5 (''Web'' @ NL @ ''Clients'') 10)
     \<lparr>ha := HCenter, va := VCenter,
      bbox := Some \<lparr>bb_boxstyle = Round 0.2, bb_facecolor = web_color, bb_alpha = None\<rparr>\<rparr>"

definition client_arrow1 :: connection_patch where
  "client_arrow1 = arrow_kw ''blue'' (ConnectionPatch (0.8, 7) (0.5, 7) Data Data)"

definition client_arrow2 :: connection_patch where
  "client_arrow2 = arrow_kw web_color (ConnectionPatch (0.8, 5.5) (0.5, 6) Data Data)"

definition database_note :: text_obj where
  "database_note = (Text 9.25 4.5 ''Database'' 10)
     \<lparr>ha := HCenter, va := VCenter,
      bbox := Some \<lparr>bb_boxstyle = Round 0.2, bb_facecolor = ''lightgray'', bb_alpha = None\<rparr>\<rparr>"

definition files_note :: text_obj where
  "files_note = (Text 11 4.5 ''Audit Files'' 10)
     \<lparr>ha := HCenter, va := VCenter,
      bbox := Some \<lparr>bb_boxstyle = Round 0.2, bb_facecolor = ''lightgray'', bb_alpha = None\<rparr>\<rparr>"

definition db_arrow :: connection_patch where
  "db_arrow = arrow_kw ''gray'' (ConnectionPatch (9.25, 5) (9.25, 4.7) Data Data)"

definition file_arrow :: connection_patch where
  "file_arrow = arrow_kw ''gray'' (ConnectionPatch (10.5, 5) (11, 4.7) Data Data)"

definition benefits_text :: string where
  "benefits_text = join_lines
     [''Benefits of Separated Architecture:'',
      bullet @ '' Loose coupling via IPC interface'',
      bullet @ '' Independent failure domains'',
      bullet @ '' Web client support built-in'',
      bullet @ '' Rust memory safety and performance'',
      bullet @ '' Preserved audit architecture (95% unchanged)'',
      bullet @ '' Minimal risk to existing functionality'']"

definition benefits_note :: text_obj where
  "benefits_note = (Text 0.5 3.5 benefits_text 11)
     \<lparr>va := VTop,
      bbox := Some \<lparr>bb_boxstyle = Round 0.3, bb_facecolor = ''lightgreen'',
                    bb_alpha = Some 0.7\<rparr>\<rparr>"

definition tech_text :: string where
  "tech_text = join_lines
     [''Technical Implementation:'',
      bullet @ '' IPC: Unix Domain Sockets / Named Pipes'',
      bullet @ '' Serialization: MessagePack (binary)'',
      bullet @ '' Error Handling: Timeout + Retry + Fallback'',
      bullet @ '' Performance: <10ms IPC overhead'',
      bullet @ '' Compatibility: 100% audit format preservation'']"

definition tech_note :: text_obj where
  "tech_note = (Text 6.5 3.5 tech_text 11)
     \<lparr>va := VTop,
      bbox := Some \<lparr>bb_boxstyle = Round 0.3, bb_facecolor = ''lightyellow'',
                    bb_alpha = Some 0.7\<rparr>\<rparr>"

definition flow_note :: text_obj where
  "flow_note = (Text 6 8.7 (updown @ '' Bidirectional IPC'') 10)
     \<lparr>ha := HCenter,
      bbox := Some \<lparr>bb_boxstyle = Round 0.2, bb_facecolor = ''green'', bb_alpha = Some 0.3\<rparr>\<rparr>"

definition separation_line :: connection_patch where
  "separation_line = (ConnectionPatch (5.75, 4.5) (5.75, 8.5) Data Data)
     \<lparr>cp_linestyle := Dashed, cp_linewidth := Some 3, cp_color := Some ''red'',
      cp_alpha := Some 0.7\<rparr>"

definition boundary_label :: text_obj where
  "boundary_label = (Text 5.75 4.2 ''Process Boundary'' 10)
     \<lparr>ha := HCenter, color := ''red'', fontweight := Bold\<rparr>"

definition proposed_populate :: "(nat \<Rightarrow> proc \<Rightarrow> proc) list" where
  "proposed_populate =
     [ax_text p_title,
      ax_add_patch rust_box, ax_text rust_label]
     @ concat (map (\<lambda>c. [ax_add_patch (rust_comp_box c), ax_text (rust_comp_text c)])
                 rust_components)
     @ [ax_add_patch java_box, ax_text java_label]
     @ concat (map (\<lambda>c. [ax_add_patch (java_comp_box c), ax_text (java_comp_text c),
                           ax_text (java_comp_tag c)])
                 java_components)
     @ [ax_add_patch ipc_box, ax_text ipc_label]
     @ map (\<lambda>ic. ax_text (ipc_item ic)) (enumerate 0 ipc_components)
     @ [ax_add_artist ipc_arrow1, ax_add_artist ipc_arrow2,
        ax_add_artist ipc_arrow3, ax_add_artist ipc_arrow4,
        ax_text native_note, ax_text web_note,
        ax_add_artist client_arrow1, ax_add_artist client_arrow2,
        ax_text database_note, ax_text files_note,
        ax_add_artist db_arrow, ax_add_artist file_arrow,
        ax_text benefits_note, ax_text tech_note, ax_text flow_note,
        ax_add_artist separation_line, ax_text boundary_label]"

definition proposed_path :: string where
  "proposed_path = ''docs/analysis/proposed-architecture.png''"

definition proposed_message :: string where
  "proposed_message =
     ''Proposed architecture diagram saved as: docs/analysis/proposed-architecture.png''"

definition proposed_main :: "proc \<Rightarrow> exn \<times> proc + proc" where
  "proposed_main st0 =
     (case plt_subplots (16, 12) st0 of (ax, st1) \<Rightarrow>
       (let st2 = ax_axis_off ax (ax_set_ylim 0 10 ax (ax_set_xlim 0 12 ax st1));
            st3 = calls proposed_populate ax st2;
            st4 = plt_tight_layout st3
        in (case plt_savefig proposed_path 300 True st4 of
              Inl e \<Rightarrow> Inl e
            | Inr st5 \<Rightarrow> Inr (print proposed_message (plt_close st5)))))"

section \<open>What a run inserts and writes\<close>

text \<open>
  Each populating call inserts one artist; the artists of the two populate phases, in the
  order of the calls.
\<close>

fun insert_call :: "artist \<Rightarrow> nat \<Rightarrow> proc \<Rightarrow> proc" where
  "insert_call (BoxPatch p) = ax_add_patch p"
| "insert_call (Connector c) = ax_add_artist c"
| "insert_call (Label t) = ax_text t"

definition current_scene :: "artist list" where
  "current_scene =
     [Label cur_title,
      BoxPatch main_box, Label main_label,
      BoxPatch mitm_box, Label mitm_label]
     @ concat (map (\<lambda>c. [BoxPatch (comp_box c), Label (comp_text c)]) mitm_components)
     @ [BoxPatch audit_box, Label audit_label]
     @ concat (map (\<lambda>c. [BoxPatch (comp_box c), Label (comp_text c)]) audit_components)
     @ [BoxPatch cred_box, Label cred_label, Label cred_sublabel,
        Connector arrow1, Connector arrow2, Connector arrow3,
        Label coupling_note, Label client_note,
        Connector client_arrow,
        Label problems_note]"

definition proposed_scene :: "artist list" where
  "proposed_scene =
     [Label p_title,
      BoxPatch rust_box, Label rust_label]
     @ concat (map (\<lambda>c. [BoxPatch (rust_comp_box c), Label (rust_comp_text c)])
                 rust_components)
     @ [BoxPatch java_box, Label java_label]
     @ concat (map (\<lambda>c. [BoxPatch (java_comp_box c), Label (java_comp_text c),
                           Label (java_comp_tag c)])
                 java_components)
     @ [BoxPatch ipc_box, Label ipc_label]
     @ map (\<lambda>ic. Label (ipc_item ic)) (enumerate 0 ipc_components)
     @ [Connector ipc_arrow1, Connector ipc_arrow2,
        Connector ipc_arrow3, Connector ipc_arrow4,
        Label native_note, Label web_note,
        Connector client_arrow1, Connector client_arrow2,
        Label database_note, Label files_note,
        Connector db_arrow, Connector file_arrow,
        Label benefits_note, Label tech_note, Label flow_note,
        Connector separation_line, Label boundary_label]"

definition current_figure :: figure where
  "current_figure =
     \<lparr>figsize = (14, 10),
      fig_axes =
        Some \<lparr>xlim = (0, 10), ylim = (0, 10), axison = False, children = current_scene\<rparr>,
      tight = True\<rparr>"

definition proposed_figure :: figure where
  "proposed_figure =
     \<lparr>figsize = (16, 12),
      fig_axes =
        Some \<lparr>xlim = (0, 12), ylim = (0, 10), axison = False, children = proposed_scene\<rparr>,
      tight = True\<rparr>"

text \<open>Reading a result: the state reached, and the image files written in it.\<close>

fun state_of :: "exn \<times> proc + proc \<Rightarrow> proc" where
  "state_of (Inl (e, st)) = st"
| "state_of (Inr st) = st"

fun images :: "event list \<Rightarrow> (string \<times> image) list" where
  "images [] = []"
| "images (Wrote p im # es) = (p, im) # images es"
| "images (Printed m # es) = images es"

definition artists_of :: "figure \<Rightarrow> artist list" where
  "artists_of f = (case fig_axes f of None \<Rightarrow> [] | Some a \<Rightarrow> children a)"

text \<open>
  The images a program writes when it runs in a new process whose file system accepts
  every write, and the artists of these images in insertion order.
\<close>

definition saved :: "(proc \<Rightarrow> exn \<times> proc + proc) \<Rightarrow> image list" where
  "saved main = map snd (images (log (state_of (main (fresh (\<lambda>_. True))))))"

definition drawn :: "(proc \<Rightarrow> exn \<times> proc + proc) \<Rightarrow> artist list" where
  "drawn main = concat (map (\<lambda>im. artists_of (im_figure im)) (saved main))"

section \<open>The plotting library's contract, as far as the properties need it\<close>

text \<open>
  The scripts fix what is asked of the library; what appears on the page follows from
  the library's documented behaviour for these calls. The part of that behaviour the
  properties below speak about is stated here.
\<close>

subsection \<open>Boxes\<close>

text \<open>
  A box patch is given the lower left corner of its rectangle and its extent; the
  chip loops subtract half the extent from the chip's position for that reason.
\<close>

definition box_low :: "fancy_bbox_patch \<Rightarrow> point" where
  "box_low p = xy p"

definition box_high :: "fancy_bbox_patch \<Rightarrow> point" where
  "box_high p = (fst (xy p) + width p, snd (xy p) + height p)"

definition box_center :: "fancy_bbox_patch \<Rightarrow> point" where
  "box_center p = (fst (xy p) + width p / 2, snd (xy p) + height p / 2)"

text \<open>
  The outline drawn is that rectangle grown by the pad of the box style on every side,
  with rounded corners; the pad is in data units, as no call sets a mutation scale.
\<close>

fun pad :: "boxstyle \<Rightarrow> rat" where
  "pad (Round p) = p"

definition outline_low :: "fancy_bbox_patch \<Rightarrow> point" where
  "outline_low p = (fst (xy p) - pad (boxstyle p), snd (xy p) - pad (boxstyle p))"

definition outline_high :: "fancy_bbox_patch \<Rightarrow> point" where
  "outline_high p =
     (fst (xy p) + width p + pad (boxstyle p), snd (xy p) + height p + pad (boxstyle p))"

text \<open>Two boxes overlap when their outlines meet.\<close>

definition boxes_overlap :: "fancy_bbox_patch \<Rightarrow> fancy_bbox_patch \<Rightarrow> bool" where
  "boxes_overlap p q \<longleftrightarrow>
     fst (outline_low p) \<le> fst (outline_high q) \<and> fst (outline_low q) \<le> fst (outline_high p) \<and>
     snd (outline_low p) \<le> snd (outline_high q) \<and> snd (outline_low q) \<le> snd (outline_high p)"

subsection \<open>Draw order\<close>

text \<open>
  The axes draw their children sorted by z-order, children of equal z-order in the order
  of insertion (the sort is stable). No call of the scripts sets a z-order, so every
  artist has the default of its class: 1 for patches, connection patches among them,
  and 3 for text.
\<close>

fun zorder :: "artist \<Rightarrow> nat" where
  "zorder (BoxPatch p) = 1"
| "zorder (Connector c) = 1"
| "zorder (Label t) = 3"

definition draw_order :: "artist list \<Rightarrow> artist list" where
  "draw_order xs = sort_key zorder xs"

definition pos :: "'a list \<Rightarrow> 'a \<Rightarrow> nat" where
  "pos xs a = length (takeWhile (\<lambda>x. x \<noteq> a) xs)"

text \<open>\<open>before xs a b\<close>: both occur in \<open>xs\<close>, and \<open>a\<close> first.\<close>

definition before :: "'a list \<Rightarrow> 'a \<Rightarrow> 'a \<Rightarrow> bool" where
  "before xs a b \<longleftrightarrow> a \<in> set xs \<and> b \<in> set xs \<and> pos xs a < pos xs b"

subsection \<open>Connectors\<close>

text \<open>
  The path of a connection patch is a quadratic Bezier curve from A to B whose control
  point is the midpoint of A and B, moved sideways by \<open>rad\<close> times the vector from A to
  B turned by a right angle. The library computes it on the page, after the transform
  from data coordinates; that transform is affine for these axes, and for \<open>rad = 0\<close> the
  construction commutes with affine maps, so it is written in data coordinates here.
\<close>

definition bezier2 :: "point \<Rightarrow> point \<Rightarrow> point \<Rightarrow> rat \<Rightarrow> point" where
  "bezier2 a m b t =
     ((1 - t) * (1 - t) * fst a + 2 * (1 - t) * t * fst m + t * t * fst b,
      (1 - t) * (1 - t) * snd a + 2 * (1 - t) * t * snd m + t * t * snd b)"

fun control_point :: "connectionstyle \<Rightarrow> point \<Rightarrow> point \<Rightarrow> point" where
  "control_point (Arc3 rad) a b =
     ((fst a + fst b) / 2 + rad * (snd b - snd a), (snd a + snd b) / 2 - rad * (fst b - fst a))"

definition path_at :: "connection_patch \<Rightarrow> rat \<Rightarrow> point" where
  "path_at c t = bezier2 (xyA c) (control_point (connectionstyle c) (xyA c) (xyB c)) (xyB c) t"

text \<open>The point at fraction \<open>t\<close> of the straight segment from A to B.\<close>

definition segment_at :: "connection_patch \<Rightarrow> rat \<Rightarrow> point" where
  "segment_at c t =
     (fst (xyA c) + t * (fst (xyB c) - fst (xyA c)), snd (xyA c) + t * (snd (xyB c) - snd (xyA c)))"

text \<open>Where an arrow style puts heads: at the start A, at the end B.\<close>

fun heads :: "arrowstyle \<Rightarrow> bool \<times> bool" where
  "heads Plain = (False, False)"
| "heads Arrow = (False, True)"

text \<open>
  What is drawn of a connector is computed on the page, in points. The length on the
  page of the segment from A to B depends on the layout the backend arrives at and is a
  parameter, \<open>len\<close>. A distance of \<open>d\<close> points along a straight path is the fraction
  \<open>d / len\<close> of the segment; such fractions need not be rational, so the points drawn
  are given with real coordinates.
\<close>

definition real_point :: "point \<Rightarrow> real \<times> real" where
  "real_point p = (of_rat (fst p), of_rat (snd p))"

definition along :: "connection_patch \<Rightarrow> real \<Rightarrow> real \<times> real" where
  "along c t =
     (of_rat (fst (xyA c)) + t * (of_rat (fst (xyB c)) - of_rat (fst (xyA c))),
      of_rat (snd (xyA c)) + t * (of_rat (snd (xyB c)) - of_rat (snd (xyA c))))"

text \<open>
  \<open>shrinkA\<close> and \<open>shrinkB\<close> are lengths in points. The library first cuts the path at
  its start, where it leaves the circle of radius \<open>shrinkA\<close> around A: that is done when
  \<open>shrinkA\<close> is not zero and B is not inside the circle; otherwise the cut fails and
  is skipped. It then cuts what is left at its end, where it enters the circle of radius
  \<open>shrinkB\<close> around B: that is done when \<open>shrinkB\<close> is not zero and the start of what
  is left is not inside that circle, and skipped otherwise. The two functions give the
  length cut away at each end.
\<close>

definition cut_start :: "real \<Rightarrow> connection_patch \<Rightarrow> real" where
  "cut_start len c =
     (if shrinkA c \<noteq> 0 \<and> \<not> len * len < of_rat (shrinkA c) * of_rat (shrinkA c)
      then \<bar>of_rat (shrinkA c)\<bar> else 0)"

definition cut_end :: "real \<Rightarrow> connection_patch \<Rightarrow> real" where
  "cut_end len c =
     (let rest = len - cut_start len c
      in if shrinkB c \<noteq> 0 \<and> \<not> rest * rest < of_rat (shrinkB c) * of_rat (shrinkB c)
         then \<bar>of_rat (shrinkB c)\<bar> else 0)"

text \<open>
  The arrow styles have a head of length 0.4 and width 0.2, both times the mutation
  scale. At an end that carries a head the style moves the end of the path, which is
  also the tip of the head, back along the path by \<open>0.5 * linewidth / sin t\<close>, where
  \<open>t\<close> is half the opening angle of the head, so that the projecting stroke does not
  pass the tip. The line width is the patch default of 1 point where no call gives one.
  A head is left out when the path has no length left.
\<close>

definition line_width :: "connection_patch \<Rightarrow> real" where
  "line_width c = (case cp_linewidth c of None \<Rightarrow> 1 | Some w \<Rightarrow> of_rat w)"

definition pad_projected :: "connection_patch \<Rightarrow> real" where
  "pad_projected c =
     (let head_length = 0.4 * of_rat (mutation_scale c);
          head_width = 0.2 * of_rat (mutation_scale c);
          head_dist = sqrt (head_length * head_length + head_width * head_width);
          sin_t = head_width / head_dist
      in 0.5 * line_width c / sin_t)"

text \<open>
  The fractions of the segment from A to B at which the drawn line starts and ends, for
  a straight path of positive length on the page; other paths are outside this model.
\<close>

definition drawn_span :: "real \<Rightarrow> connection_patch \<Rightarrow> (real \<times> real) option" where
  "drawn_span len c =
     (if connectionstyle c = Arc3 0 \<and> 0 < len
      then
        let a = cut_start len c;
            b = cut_end len c;
            room = (a + b \<noteq> len);
            a' = (if fst (heads (arrowstyle c)) \<and> room then a + pad_projected c else a);
            b' = (if snd (heads (arrowstyle c)) \<and> room then b + pad_projected c else b)
        in Some (a' / len, 1 - b' / len)
      else None)"

definition drawn_ends :: "real \<Rightarrow> connection_patch \<Rightarrow> ((real \<times> real) \<times> (real \<times> real)) option" where
  "drawn_ends len c = map_option (\<lambda>(s, e). (along c s, along c e)) (drawn_span len c)"

text \<open>The tips of the heads drawn: the ends of the drawn line that carry a head.\<close>

definition head_tips :: "real \<Rightarrow> connection_patch \<Rightarrow> (real \<times> real) list option" where
  "head_tips len c =
     map_option
       (\<lambda>(s, e).
          let room = (cut_start len c + cut_end len c \<noteq> len)
          in (if fst (heads (arrowstyle c)) \<and> room then [along c s] else []) @
             (if snd (heads (arrowstyle c)) \<and> room then [along c e] else []))
       (drawn_span len c)"

fun connectors :: "artist list \<Rightarrow> connection_patch list" where
  "connectors [] = []"
| "connectors (Connector c # as) = c # connectors as"
| "connectors (a # as) = connectors as"

subsection \<open>Coordinates and the axes' limits\<close>

text \<open>
  The coordinates an artist is given: both corners of a box, both ends of a connector,
  the anchor of a text.
\<close>

fun artist_points :: "artist \<Rightarrow> point list" where
  "artist_points (BoxPatch p) = [box_low p, box_high p]"
| "artist_points (Connector c) = [xyA c, xyB c]"
| "artist_points (Label t) = [(tx t, ty t)]"

definition in_limits :: "axes \<Rightarrow> point \<Rightarrow> bool" where
  "in_limits a p \<longleftrightarrow>
     fst (xlim a) \<le> fst p \<and> fst p \<le> snd (xlim a) \<and>
     fst (ylim a) \<le> snd p \<and> snd p \<le> snd (ylim a)"

definition all_in_limits :: "figure \<Rightarrow> bool" where
  "all_in_limits f =
     (case fig_axes f of
        None \<Rightarrow> True
      | Some a \<Rightarrow> list_all (in_limits a) (concat (map artist_points (children a))))"

definition limits :: "figure \<Rightarrow> ((rat \<times> rat) \<times> (rat \<times> rat)) option" where
  "limits f = map_option (\<lambda>a. (xlim a, ylim a)) (fig_axes f)"

subsection \<open>Chips and their labels\<close>

text \<open>A text with the given string anchored at the given point occurs among the artists.\<close>

definition has_label :: "artist list \<Rightarrow> rat \<Rightarrow> rat \<Rightarrow> string \<Rightarrow> bool" where
  "has_label as x y s =
     list_ex (\<lambda>a. case a of Label t \<Rightarrow> tx t = x \<and> ty t = y \<and> ts t = s | _ \<Rightarrow> False) as"

text \<open>The same, for a text set in italics.\<close>

definition has_italic :: "artist list \<Rightarrow> rat \<Rightarrow> rat \<Rightarrow> string \<Rightarrow> bool" where
  "has_italic as x y s =
     list_ex (\<lambda>a. case a of
                    Label t \<Rightarrow> tx t = x \<and> ty t = y \<and> ts t = s \<and> style t = Italic
                  | _ \<Rightarrow> False) as"

text \<open>
  A text anchored at the given point and aligned on its centre in both directions
  directly follows the given box.
\<close>

fun labelled_at :: "artist list \<Rightarrow> fancy_bbox_patch \<Rightarrow> point \<Rightarrow> bool" where
  "labelled_at (BoxPatch p # Label t # as) q pt =
     (p = q \<and> (tx t, ty t) = pt \<and> ha t = HCenter \<and> va t = VCenter
      \<or> labelled_at (Label t # as) q pt)"
| "labelled_at (a # as) q pt = labelled_at as q pt"
| "labelled_at [] q pt = False"

text \<open>The containers and the chips of the two diagrams.\<close>

definition current_containers :: "fancy_bbox_patch list" where
  "current_containers = [main_box, mitm_box, audit_box, cred_box]"

definition current_chips :: "fancy_bbox_patch list" where
  "current_chips = map comp_box (mitm_components @ audit_components)"

definition proposed_containers :: "fancy_bbox_patch list" where
  "proposed_containers = [rust_box, java_box, ipc_box]"

definition proposed_chips :: "fancy_bbox_patch list" where
  "proposed_chips = map rust_comp_box rust_components @ map java_comp_box java_components"

text \<open>
  In the list of artists, every container comes before every connector and before
  every chip whose rectangle meets its own.
\<close>

definition containers_first ::
  "artist list \<Rightarrow> fancy_bbox_patch list \<Rightarrow> fancy_bbox_patch list \<Rightarrow> bool"
where
  "containers_first as cs chips \<longleftrightarrow>
     list_all (\<lambda>c.
        list_all (\<lambda>k. before as (BoxPatch c) (Connector k)) (connectors as) \<and>
        list_all (\<lambda>p. \<not> boxes_overlap c p \<or> before as (BoxPatch c) (BoxPatch p)) chips) cs"

subsection \<open>Runs\<close>

text \<open>The image files a run started in \<open>st\<close> adds to those written before.\<close>

definition new_images :: "(proc \<Rightarrow> exn \<times> proc + proc) \<Rightarrow> proc \<Rightarrow> (string \<times> image) list" where
  "new_images main st = drop (length (images (log st))) (images (log (state_of (main st))))"

section \<open>Running the scripts\<close>

lemma insert_call_eq: "insert_call a = on_axes (add_child a)"
  by (cases a) (simp_all add: ax_add_patch_def ax_add_artist_def ax_text_def)

lemma current_populate_scene: "current_populate = map insert_call current_scene"
  by (simp add: current_populate_def current_scene_def mitm_components_def audit_components_def)

lemma proposed_populate_scene: "proposed_populate = map insert_call proposed_scene"
  by (simp add: proposed_populate_def proposed_scene_def rust_components_def
      java_components_def ipc_components_def enumerate_eq_zip)

lemma on_axes_twice: "on_axes f ax (on_axes g ax st) = on_axes (f \<circ> g) ax st"
  by (simp add: on_axes_def option.map_comp)

lemma add_child_append:
  "(\<lambda>x. x\<lparr>children := children x @ bs\<rparr>) \<circ> add_child a = (\<lambda>x. x\<lparr>children := children x @ a # bs\<rparr>)"
  by (rule ext) (simp add: add_child_def)

lemma on_axes_id: "on_axes (\<lambda>x. x) ax st = st"
  by (simp add: on_axes_def option.map_ident)

lemma calls_insert:
  "calls (map insert_call as) ax st = on_axes (\<lambda>x. x\<lparr>children := children x @ as\<rparr>) ax st"
proof (induction as arbitrary: st)
  case Nil
  show ?case by (simp add: calls_def on_axes_id)
next
  case (Cons a as)
  have "calls (map insert_call (a # as)) ax st = calls (map insert_call as) ax (insert_call a ax st)"
    by (simp add: calls_def)
  also have "\<dots> = on_axes (\<lambda>x. x\<lparr>children := children x @ as\<rparr>) ax (on_axes (add_child a) ax st)"
    by (simp add: Cons.IH insert_call_eq)
  finally show ?case
    by (simp add: on_axes_twice add_child_append)
qed

lemma current_main_run:
  "current_main st =
     (if fs_writable st current_path
      then Inr (st\<lparr>heap := (heap st)(next_id st := current_figure),
                  next_id := Suc (next_id st),
                  log := log st @
                    [Wrote current_path \<lparr>im_dpi = 300, im_tight_bbox = True, im_figure = current_figure\<rparr>,
                     Printed current_message]\<rparr>)
      else Inl (OSError current_path,
                st\<lparr>heap := (heap st)(next_id st := current_figure),
                   next_id := Suc (next_id st),
                   open_figs := open_figs st @ [next_id st]\<rparr>))"
  by (simp add: current_main_def plt_subplots_def new_figure_def ax_set_xlim_def ax_set_ylim_def
      ax_axis_off_def current_populate_scene calls_insert on_axes_def plt_tight_layout_def gcf_def
      plt_savefig_def plt_close_def print_def current_figure_def Let_def)

lemma proposed_main_run:
  "proposed_main st =
     (if fs_writable st proposed_path
      then Inr (st\<lparr>heap := (heap st)(next_id st := proposed_figure),
                  next_id := Suc (next_id st),
                  log := log st @
                    [Wrote proposed_path \<lparr>im_dpi = 300, im_tight_bbox = True, im_figure = proposed_figure\<rparr>,
                     Printed proposed_message]\<rparr>)
      else Inl (OSError proposed_path,
                st\<lparr>heap := (heap st)(next_id st := proposed_figure),
                   next_id := Suc (next_id st),
                   open_figs := open_figs st @ [next_id st]\<rparr>))"
  by (simp add: proposed_main_def plt_subplots_def new_figure_def ax_set_xlim_def ax_set_ylim_def
      ax_axis_off_def proposed_populate_scene calls_insert on_axes_def plt_tight_layout_def gcf_def
      plt_savefig_def plt_close_def print_def proposed_figure_def Let_def)

lemma saved_current:
  "saved current_main = [\<lparr>im_dpi = 300, im_tight_bbox = True, im_figure = current_figure\<rparr>]"
  by (simp add: saved_def current_main_run fresh_def)

lemma saved_proposed:
  "saved proposed_main = [\<lparr>im_dpi = 300, im_tight_bbox = True, im_figure = proposed_figure\<rparr>]"
  by (simp add: saved_def proposed_main_run fresh_def)

lemma drawn_current: "drawn current_main = current_scene"
  by (simp add: drawn_def saved_current artists_of_def current_figure_def)

lemma drawn_proposed: "drawn proposed_main = proposed_scene"
  by (simp add: drawn_def saved_proposed artists_of_def proposed_figure_def)

lemma str_split_not_Nil: "str_split sep s \<noteq> []"
  by (induction s) (auto split: list.splits)

lemma split0_takeWhile: "split0 sep s = takeWhile (\<lambda>c. c \<noteq> sep) s"
  unfolding split0_def
  by (induction s) (auto split: list.splits simp: str_split_not_Nil)

lemma insort_front: "\<forall>y \<in> set ys. f x \<le> f y \<Longrightarrow> insort_key f x ys = x # ys"
  by (cases ys) auto

lemma insort_past: "\<forall>y \<in> set ys. f y < f x \<Longrightarrow> insort_key f x (ys @ zs) = ys @ insort_key f x zs"
  by (induction ys) auto

lemma zorder_ge_1: "Suc 0 \<le> zorder a"
  by (cases a) simp_all

lemma draw_order_layers:
  "draw_order xs = filter (\<lambda>a. zorder a = 1) xs @ filter (\<lambda>a. zorder a = 3) xs"
proof (induction xs)
  case Nil
  show ?case by (simp add: draw_order_def)
next
  case (Cons a xs)
  have step: "draw_order (a # xs) = insort_key zorder a (draw_order xs)"
    by (simp add: draw_order_def)
  show ?case
  proof (cases a)
    case (Label t)
    have "insort_key zorder a (filter (\<lambda>a. zorder a = 1) xs @ filter (\<lambda>a. zorder a = 3) xs)
          = filter (\<lambda>a. zorder a = 1) xs @ insort_key zorder a (filter (\<lambda>a. zorder a = 3) xs)"
      by (rule insort_past) (simp add: Label)
    moreover have "insort_key zorder a (filter (\<lambda>a. zorder a = 3) xs)
          = a # filter (\<lambda>a. zorder a = 3) xs"
      by (rule insort_front) (simp add: Label)
    ultimately show ?thesis using Label step Cons.IH by simp
  next
    case (BoxPatch p)
    have "insort_key zorder a (draw_order xs) = a # draw_order xs"
      by (rule insort_front) (simp add: BoxPatch zorder_ge_1)
    then show ?thesis using BoxPatch step Cons.IH by simp
  next
    case (Connector c)
    have "insort_key zorder a (draw_order xs) = a # draw_order xs"
      by (rule insort_front) (simp add: Connector zorder_ge_1)
    then show ?thesis using Connector step Cons.IH by simp
  qed
qed

lemma bezier_midpoint:
  "(1 - t) * (1 - t) * a + 2 * (1 - t) * t * ((a + b) / 2) + t * t * b = a + t * (b - a)"
  for a b t :: rat
  by (simp add: field_simps)

lemma control_point_mid:
  "control_point (Arc3 0) a b = ((fst a + fst b) / 2, (snd a + snd b) / 2)"
  by simp

lemma path_straight: "connectionstyle c = Arc3 0 \<Longrightarrow> path_at c t = segment_at c t"
  unfolding path_at_def segment_at_def bezier2_def
  by (simp only: control_point_mid fst_conv snd_conv bezier_midpoint)

subsection \<open>What the runs write\<close>

lemma images_append: "images (es @ fs) = images es @ images fs"
  by (induction es rule: images.induct) simp_all

lemma new_images_current:
  "fs_writable st current_path \<Longrightarrow>
   new_images current_main st =
     [(current_path, \<lparr>im_dpi = 300, im_tight_bbox = True, im_figure = current_figure\<rparr>)]"
  by (simp add: new_images_def current_main_run images_append)

lemma new_images_proposed:
  "fs_writable st proposed_path \<Longrightarrow>
   new_images proposed_main st =
     [(proposed_path, \<lparr>im_dpi = 300, im_tight_bbox = True, im_figure = proposed_figure\<rparr>)]"
  by (simp add: new_images_def proposed_main_run images_append)

lemma fs_writable_current: "fs_writable (state_of (current_main st)) = fs_writable st"
  by (simp add: current_main_run)

lemma fs_writable_proposed: "fs_writable (state_of (proposed_main st)) = fs_writable st"
  by (simp add: proposed_main_run)

subsection \<open>Unfolding the artists\<close>

lemmas primitive_defs = FancyBboxPatch_def ConnectionPatch_def Text_def arrow_kw_def

lemmas current_artist_defs =
  cur_title_def main_box_def main_label_def mitm_box_def mitm_label_def audit_box_def
  audit_label_def cred_box_def cred_label_def cred_sublabel_def arrow1_def arrow2_def
  arrow3_def coupling_note_def client_note_def client_arrow_def problems_note_def

lemmas proposed_artist_defs =
  p_title_def rust_box_def rust_label_def java_box_def java_label_def ipc_box_def
  ipc_label_def ipc_arrow1_def ipc_arrow2_def ipc_arrow3_def ipc_arrow4_def
  native_note_def web_note_def client_arrow1_def client_arrow2_def database_note_def
  files_note_def db_arrow_def file_arrow_def benefits_note_def tech_note_def
  flow_note_def separation_line_def boundary_label_def

lemma connectors_current:
  "connectors (drawn current_main) = [arrow1, arrow2, arrow3, client_arrow]"
  by (simp add: drawn_current current_scene_def mitm_components_def audit_components_def)

lemma connectors_proposed:
  "connectors (drawn proposed_main) =
     [ipc_arrow1, ipc_arrow2, ipc_arrow3, ipc_arrow4, client_arrow1, client_arrow2,
      db_arrow, file_arrow, separation_line]"
  by (simp add: drawn_proposed proposed_scene_def rust_components_def java_components_def
      ipc_components_def enumerate_eq_zip)

text \<open>Text is drawn last, so the connectors keep their order among the patches.\<close>

lemma connectors_filter_patches:
  "connectors (filter (\<lambda>a. zorder a = Suc 0) xs @ filter (\<lambda>a. zorder a = 3) xs) = connectors xs"
proof -
  have l: "connectors (filter (\<lambda>a. zorder a = 3) xs) = []"
    by (induction xs rule: connectors.induct) simp_all
  have app: "connectors (ys @ zs) = connectors ys @ connectors zs" for ys zs
    by (induction ys rule: connectors.induct) simp_all
  have p: "connectors (filter (\<lambda>a. zorder a = Suc 0) xs) = connectors xs"
    by (induction xs rule: connectors.induct) simp_all
  show ?thesis by (simp add: app l p)
qed

subsection \<open>Points on a connector\<close>

lemma sqrt5_bounds: "2 < sqrt 5" "sqrt 5 < 9 / 4"
proof -
  have "sqrt (2\<^sup>2) < sqrt 5"
    unfolding real_sqrt_less_iff by simp
  then show "2 < sqrt 5" by simp
  have "sqrt 5 < sqrt ((9 / 4)\<^sup>2)"
    unfolding real_sqrt_less_iff by (simp add: power2_eq_square)
  then show "sqrt 5 < 9 / 4" by simp
qed

lemma head_dist_arrow:
  fixes m :: real
  assumes "0 < m"
  shows "sqrt (0.4 * m * (0.4 * m) + 0.2 * m * (0.2 * m)) = m * sqrt 5 / 5"
proof (rule real_sqrt_unique)
  have "(m * sqrt 5 / 5)\<^sup>2 = m\<^sup>2 * (sqrt 5)\<^sup>2 / 25"
    by (simp add: power_divide power_mult_distrib)
  also have "\<dots> = m\<^sup>2 / 5" by simp
  also have "\<dots> = 0.4 * m * (0.4 * m) + 0.2 * m * (0.2 * m)"
    by (simp add: power2_eq_square field_simps)
  finally show "(m * sqrt 5 / 5)\<^sup>2 = 0.4 * m * (0.4 * m) + 0.2 * m * (0.2 * m)" .
  show "0 \<le> m * sqrt 5 / 5" using assms by simp
qed

lemma pad_projected_arrow:
  assumes "0 < mutation_scale c"
  shows "pad_projected c = line_width c * sqrt 5 / 2"
proof -
  define m :: real where "m = of_rat (mutation_scale c)"
  have m: "0 < m" using assms by (simp add: m_def)
  have "pad_projected c =
      0.5 * line_width c / (0.2 * m / sqrt (0.4 * m * (0.4 * m) + 0.2 * m * (0.2 * m)))"
    by (simp only: pad_projected_def Let_def m_def)
  also have "\<dots> = 0.5 * line_width c / (0.2 * m / (m * sqrt 5 / 5))"
    by (simp only: head_dist_arrow [OF m])
  also have "\<dots> = line_width c * sqrt 5 / 2"
    using m by simp
  finally show ?thesis .
qed

lemma along_ends: "along c 0 = real_point (xyA c)" "along c 1 = real_point (xyB c)"
  by (simp_all add: along_def real_point_def)

lemma along_of_rat: "along c (of_rat t) = real_point (segment_at c t)"
  by (simp add: along_def real_point_def segment_at_def of_rat_add of_rat_mult of_rat_diff)

lemma along_off_A: "xyA c \<noteq> xyB c \<Longrightarrow> t \<noteq> 0 \<Longrightarrow> along c t \<noteq> real_point (xyA c)"
  by (auto simp add: along_def real_point_def prod_eq_iff)

lemma along_off_B:
  assumes ne: "xyA c \<noteq> xyB c" and t: "t \<noteq> 1"
  shows "along c t \<noteq> real_point (xyB c)"
proof
  assume eq: "along c t = real_point (xyB c)"
  then have "(1 - t) * (of_rat (fst (xyB c)) - of_rat (fst (xyA c))) = (0::real)"
    "(1 - t) * (of_rat (snd (xyB c)) - of_rat (snd (xyA c))) = (0::real)"
    by (simp_all add: along_def real_point_def prod_eq_iff algebra_simps)
  with t have "fst (xyB c) = fst (xyA c)" "snd (xyB c) = snd (xyA c)" by simp_all
  with ne show False by (simp add: prod_eq_iff)
qed

lemma square_le: "a \<le> x \<Longrightarrow> 0 \<le> a \<Longrightarrow> \<not> x * x < a * (a::real)"
  by (simp add: not_less mult_mono)

lemma cuts_arrow:
  assumes "shrinkA c = 5" and "shrinkB c = 5" and "10 < len"
  shows "cut_start len c = 5" and "cut_end len c = 5"
proof -
  have a: "\<not> len * len < 5 * 5" using assms(3) by (intro square_le) simp_all
  then show s: "cut_start len c = 5" using assms(1) by (simp add: cut_start_def)
  have b: "\<not> (len - 5) * (len - 5) < 5 * 5" using assms(3) by (intro square_le) simp_all
  then show "cut_end len c = 5" using assms(2) s by (simp add: cut_end_def Let_def)
qed

lemma drawn_span_arrow:
  assumes "connectionstyle c = Arc3 0" and "shrinkA c = 5" and "shrinkB c = 5"
    and "arrowstyle c = Arrow" and "0 < mutation_scale c" and "10 < len"
  shows "drawn_span len c = Some (5 / len, 1 - (5 + line_width c * sqrt 5 / 2) / len)"
  using assms cuts_arrow [of c len]
  by (simp add: drawn_span_def Let_def pad_projected_arrow)

lemma head_tips_arrow:
  assumes "connectionstyle c = Arc3 0" and "shrinkA c = 5" and "shrinkB c = 5"
    and "arrowstyle c = Arrow" and "0 < mutation_scale c" and "10 < len"
  shows "head_tips len c = Some [along c (1 - (5 + line_width c * sqrt 5 / 2) / len)]"
  using assms cuts_arrow [of c len] drawn_span_arrow [of c len]
  by (simp add: head_tips_def Let_def)

lemma drawn_span_plain:
  assumes "connectionstyle c = Arc3 0" and "shrinkA c = 0" and "shrinkB c = 0"
    and "arrowstyle c = Plain" and "0 < len"
  shows "drawn_span len c = Some (0, 1)" and "head_tips len c = Some []"
  using assms by (simp_all add: head_tips_def drawn_span_def cut_start_def cut_end_def Let_def)

lemma connector_facts:
  "list_all (\<lambda>c. connectionstyle c = Arc3 0 \<and> xyA c \<noteq> xyB c \<and> 0 < mutation_scale c \<and>
                0 < line_width c \<and> line_width c \<le> 3 \<and>
                (if c = separation_line
                 then shrinkA c = 0 \<and> shrinkB c = 0 \<and> arrowstyle c = Plain
                 else shrinkA c = 5 \<and> shrinkB c = 5 \<and> arrowstyle c = Arrow))
     (connectors (drawn current_main) @ connectors (drawn proposed_main))"
  by (simp add: connectors_current connectors_proposed current_artist_defs
      proposed_artist_defs primitive_defs line_width_def)

lemma line_widths:
  "map line_width (connectors (drawn current_main)) = [2, 2, 2, 1]"
  "map line_width (connectors (drawn proposed_main)) = [3, 3, 3, 3, 1, 1, 1, 1, 3]"
  by (simp_all add: connectors_current connectors_proposed current_artist_defs
      proposed_artist_defs primitive_defs line_width_def)

subsection \<open>Containers before what lies on them\<close>

lemma containers_first_current:
  "containers_first (drawn current_main) current_containers current_chips"
  by (simp add: containers_first_def connectors_current current_containers_def current_chips_def
      drawn_current current_scene_def before_def pos_def boxes_overlap_def
      outline_low_def outline_high_def box_low_def
      box_high_def mitm_components_def audit_components_def current_artist_defs primitive_defs)

lemma containers_first_current_drawn:
  "containers_first (draw_order (drawn current_main)) current_containers current_chips"
  unfolding containers_first_def draw_order_layers
  by (simp add: connectors_filter_patches connectors_current current_containers_def current_chips_def
      drawn_current current_scene_def before_def pos_def boxes_overlap_def
      outline_low_def outline_high_def box_low_def
      box_high_def mitm_components_def audit_components_def current_artist_defs primitive_defs)

lemma containers_first_proposed:
  "containers_first (drawn proposed_main) proposed_containers proposed_chips"
  by (simp add: containers_first_def connectors_proposed proposed_containers_def
      proposed_chips_def drawn_proposed proposed_scene_def before_def pos_def boxes_overlap_def
      outline_low_def outline_high_def
      box_low_def box_high_def rust_components_def java_components_def ipc_components_def
      enumerate_eq_zip proposed_artist_defs primitive_defs)

lemma containers_first_proposed_drawn:
  "containers_first (draw_order (drawn proposed_main)) proposed_containers proposed_chips"
  unfolding containers_first_def draw_order_layers
  by (simp add: connectors_filter_patches connectors_proposed proposed_containers_def
      proposed_chips_def drawn_proposed proposed_scene_def before_def pos_def boxes_overlap_def
      outline_low_def outline_high_def
      box_low_def box_high_def rust_components_def java_components_def ipc_components_def
      enumerate_eq_zip proposed_artist_defs primitive_defs)

section \<open>Properties of the two diagrams\<close>

text \<open>
  C1, as the code contradicts it. The connector of the current-architecture diagram
  requested between (0.8, 7) and (1, 7) is requested with \<open>shrinkA=5, shrinkB=5\<close> and
  the arrow style \<open>"->"\<close>, at the default line width. On the page it is about 19.41
  points long (0.2 data units, at somewhat less than the 14 * 72 / 10 points per unit
  that the width of the figure allows). The line drawn starts 5 points after the first
  point, beyond x = 0.85, and ends 5 + 1.118 points before the second, short of
  x = 0.94: neither end is the point given.
\<close>

theorem client_arrow_ends_displaced:
  "Connector client_arrow \<in> set (drawn current_main)
   \<and> (xyA client_arrow, xyB client_arrow) = ((0.8, 7), (1, 7))
   \<and> drawn_ends 19.41 client_arrow =
       Some ((0.8 + 100 / 1941, 7), (1 - (100 + 10 * sqrt 5) / 1941, 7))
   \<and> (0.85::real) < 0.8 + 100 / 1941
   \<and> 1 - (100 + 10 * sqrt 5) / 1941 < (0.94::real)"
proof -
  have a: "Connector client_arrow \<in> set (drawn current_main)"
    by (simp add: drawn_current current_scene_def)
  have b: "(xyA client_arrow, xyB client_arrow) = ((0.8, 7), (1, 7))"
    by (simp add: client_arrow_def primitive_defs)
  have lw: "line_width client_arrow = 1"
    by (simp add: line_width_def client_arrow_def primitive_defs)
  have "drawn_span 19.41 client_arrow =
      Some (5 / 19.41, 1 - (5 + line_width client_arrow * sqrt 5 / 2) / 19.41)"
    by (rule drawn_span_arrow) (simp_all add: client_arrow_def primitive_defs)
  then have sp: "drawn_span 19.41 client_arrow = Some (5 / 19.41, 1 - (5 + sqrt 5 / 2) / 19.41)"
    by (simp only: lw mult_1)
  have pts: "along client_arrow t = (0.8 + t * 0.2, 7)" for t
    by (simp add: along_def client_arrow_def primitive_defs of_rat_divide)
  have c: "drawn_ends 19.41 client_arrow =
       Some ((0.8 + 100 / 1941, 7), (1 - (100 + 10 * sqrt 5) / 1941, 7))"
    unfolding drawn_ends_def sp by (simp add: pts field_simps)
  have d: "(0.85::real) < 0.8 + 100 / 1941" by simp
  have e: "1 - (100 + 10 * sqrt 5) / 1941 < (0.94::real)"
    using sqrt5_bounds(1) by simp
  from a b c d e show ?thesis by blast
qed

text \<open>
  C1, amended. The two points of every connector call are recorded as given, in data
  coordinates and in the order given. The line drawn is not taken to these points: every
  arrow of the two scripts is requested with a shrink of 5 points at both ends and with
  a head at its end, so on a page where the connector is longer than 10 points the line
  drawn starts 5 points after the first point and ends 5 points plus the line width
  times half the square root of 5 (6.1, 7.2 and 8.4 points at the line widths 1, 2 and
  3 in use) before the second, on the straight segment between them, and neither end of
  it is the point given. Only the process-boundary line of the proposed-architecture
  diagram, requested without shrink and without head, is drawn from and to the points
  given.
\<close>

theorem connector_ends_pulled_back:
  assumes "10 < len"
  shows "map (\<lambda>c. (xyA c, xyB c)) (connectors (drawn current_main)) =
           [((5, 6), (5, 5.3)), ((5, 6), (5, 2.7)), ((5, 3.5), (5, 2.7)), ((0.8, 7), (1, 7))]
       \<and> map (\<lambda>c. (xyA c, xyB c)) (connectors (drawn proposed_main)) =
           [((5, 7), (5.25, 7)), ((6.75, 7), (7, 7)), ((7, 6.5), (6.75, 6.5)),
            ((5.25, 6.5), (5, 6.5)), ((0.8, 7), (0.5, 7)), ((0.8, 5.5), (0.5, 6)),
            ((9.25, 5), (9.25, 4.7)), ((10.5, 5), (11, 4.7)), ((5.75, 4.5), (5.75, 8.5))]
       \<and> map line_width (connectors (drawn current_main)) = [2, 2, 2, 1]
       \<and> map line_width (connectors (drawn proposed_main)) = [3, 3, 3, 3, 1, 1, 1, 1, 3]
       \<and> list_all (\<lambda>c.
            if c = separation_line
            then (shrinkA c, shrinkB c) = (0, 0) \<and>
                 drawn_ends len c = Some (real_point (xyA c), real_point (xyB c))
            else (shrinkA c, shrinkB c) = (5, 5) \<and>
                 drawn_ends len c =
                   Some (along c (5 / len),
                         along c (1 - (5 + line_width c * sqrt 5 / 2) / len)) \<and>
                 along c (5 / len) \<noteq> real_point (xyA c) \<and>
                 along c (1 - (5 + line_width c * sqrt 5 / 2) / len) \<noteq> real_point (xyB c))
          (connectors (drawn current_main) @ connectors (drawn proposed_main))"
proof -
  have a: "map (\<lambda>c. (xyA c, xyB c)) (connectors (drawn current_main)) =
           [((5, 6), (5, 5.3)), ((5, 6), (5, 2.7)), ((5, 3.5), (5, 2.7)), ((0.8, 7), (1, 7))]"
    by (simp add: connectors_current current_artist_defs primitive_defs)
  have b: "map (\<lambda>c. (xyA c, xyB c)) (connectors (drawn proposed_main)) =
           [((5, 7), (5.25, 7)), ((6.75, 7), (7, 7)), ((7, 6.5), (6.75, 6.5)),
            ((5.25, 6.5), (5, 6.5)), ((0.8, 7), (0.5, 7)), ((0.8, 5.5), (0.5, 6)),
            ((9.25, 5), (9.25, 4.7)), ((10.5, 5), (11, 4.7)), ((5.75, 4.5), (5.75, 8.5))]"
    by (simp add: connectors_proposed proposed_artist_defs primitive_defs)
  have c: "list_all (\<lambda>c.
            if c = separation_line
            then (shrinkA c, shrinkB c) = (0, 0) \<and>
                 drawn_ends len c = Some (real_point (xyA c), real_point (xyB c))
            else (shrinkA c, shrinkB c) = (5, 5) \<and>
                 drawn_ends len c =
                   Some (along c (5 / len),
                         along c (1 - (5 + line_width c * sqrt 5 / 2) / len)) \<and>
                 along c (5 / len) \<noteq> real_point (xyA c) \<and>
                 along c (1 - (5 + line_width c * sqrt 5 / 2) / len) \<noteq> real_point (xyB c))
          (connectors (drawn current_main) @ connectors (drawn proposed_main))"
    unfolding list_all_iff
  proof
    fix c
    assume in_c: "c \<in> set (connectors (drawn current_main) @ connectors (drawn proposed_main))"
    with connector_facts have st: "connectionstyle c = Arc3 0" and ne: "xyA c \<noteq> xyB c"
      and ms: "0 < mutation_scale c" and lw: "0 < line_width c"
      and kind: "if c = separation_line
                 then shrinkA c = 0 \<and> shrinkB c = 0 \<and> arrowstyle c = Plain
                 else shrinkA c = 5 \<and> shrinkB c = 5 \<and> arrowstyle c = Arrow"
      unfolding list_all_iff by blast+
    show "if c = separation_line
            then (shrinkA c, shrinkB c) = (0, 0) \<and>
                 drawn_ends len c = Some (real_point (xyA c), real_point (xyB c))
            else (shrinkA c, shrinkB c) = (5, 5) \<and>
                 drawn_ends len c =
                   Some (along c (5 / len),
                         along c (1 - (5 + line_width c * sqrt 5 / 2) / len)) \<and>
                 along c (5 / len) \<noteq> real_point (xyA c) \<and>
                 along c (1 - (5 + line_width c * sqrt 5 / 2) / len) \<noteq> real_point (xyB c)"
    proof (cases "c = separation_line")
      case True
      with kind have k: "shrinkA c = 0" "shrinkB c = 0" "arrowstyle c = Plain" by simp_all
      from assms have "0 < len" by simp
      from drawn_span_plain(1) [OF st k this] True k show ?thesis
        by (simp add: drawn_ends_def along_ends)
    next
      case False
      with kind have k: "shrinkA c = 5" "shrinkB c = 5" "arrowstyle c = Arrow" by simp_all
      from assms have len: "0 < len" by simp
      then have "5 / len \<noteq> 0" by simp
      moreover have "0 < 5 + line_width c * sqrt 5 / 2" using lw by (simp add: add_pos_pos)
      then have "(5 + line_width c * sqrt 5 / 2) / len \<noteq> 0" using len by simp
      then have "1 - (5 + line_width c * sqrt 5 / 2) / len \<noteq> 1" by simp
      ultimately have off: "along c (5 / len) \<noteq> real_point (xyA c)"
        "along c (1 - (5 + line_width c * sqrt 5 / 2) / len) \<noteq> real_point (xyB c)"
        using ne by (simp_all add: along_off_A along_off_B)
      from drawn_span_arrow [OF st k ms assms] off False k show ?thesis
        by (simp add: drawn_ends_def)
    qed
  qed
  from a b c line_widths show ?thesis by blast
qed

text \<open>The amended C1 on a page where the connectors are 30 points long.\<close>

theorem connector_ends_pulled_back_witness:
  "(10::real) < 30
   \<and> drawn_ends 30 arrow1 = Some (along arrow1 (5 / 30), along arrow1 (1 - (5 + 2 * sqrt 5 / 2) / 30))
   \<and> along arrow1 (5 / 30) = (5, 6 - 7 / 60)
   \<and> drawn_ends 30 separation_line = Some ((5.75, 4.5), (5.75, 8.5))"
proof -
  have l: "(10::real) < 30" by simp
  have a: "arrow1 \<in> set (connectors (drawn current_main) @ connectors (drawn proposed_main))"
    by (simp add: connectors_current)
  have s: "separation_line \<in> set (connectors (drawn current_main) @ connectors (drawn proposed_main))"
    by (simp add: connectors_proposed)
  have n: "arrow1 \<noteq> separation_line"
    by (simp add: arrow1_def separation_line_def primitive_defs)
  have lw: "line_width arrow1 = 2"
    by (simp add: line_width_def arrow1_def primitive_defs)
  from connector_ends_pulled_back [OF l]
  have "list_all (\<lambda>c.
            if c = separation_line
            then (shrinkA c, shrinkB c) = (0, 0) \<and>
                 drawn_ends 30 c = Some (real_point (xyA c), real_point (xyB c))
            else (shrinkA c, shrinkB c) = (5, 5) \<and>
                 drawn_ends 30 c =
                   Some (along c (5 / 30),
                         along c (1 - (5 + line_width c * sqrt 5 / 2) / 30)) \<and>
                 along c (5 / 30) \<noteq> real_point (xyA c) \<and>
                 along c (1 - (5 + line_width c * sqrt 5 / 2) / 30) \<noteq> real_point (xyB c))
          (connectors (drawn current_main) @ connectors (drawn proposed_main))"
    by blast
  then have "drawn_ends 30 arrow1 =
      Some (along arrow1 (5 / 30), along arrow1 (1 - (5 + line_width arrow1 * sqrt 5 / 2) / 30))"
    and "drawn_ends 30 separation_line =
      Some (real_point (xyA separation_line), real_point (xyB separation_line))"
    using a s n unfolding list_all_iff by (metis (no_types, lifting))+
  moreover have "along arrow1 (5 / 30) = (5, 6 - 7 / 60)"
    by (simp add: along_def arrow1_def primitive_defs of_rat_divide)
  ultimately show ?thesis
    by (simp add: lw real_point_def separation_line_def primitive_defs of_rat_divide)
qed

text \<open>
  C2, as the code contradicts it. After the current-architecture script has exported
  and closed its figure, a further \<open>ax.text\<close> on its axes is not refused: it returns
  a state in which the text has been appended to the artists of the exported figure.
\<close>

theorem populate_after_export_succeeds:
  "\<not> isl (current_main (fresh (\<lambda>_. True)))
   \<and> length (new_images current_main (fresh (\<lambda>_. True))) = 1
   \<and> open_figs (state_of (current_main (fresh (\<lambda>_. True)))) = []
   \<and> artists_of (heap (ax_text cur_title 0 (state_of (current_main (fresh (\<lambda>_. True))))) 0)
       = drawn current_main @ [Label cur_title]"
proof -
  have w: "fs_writable (fresh (\<lambda>_. True)) current_path" by (simp add: fresh_def)
  have "artists_of (heap (ax_text cur_title 0 (state_of (current_main (fresh (\<lambda>_. True))))) 0)
       = drawn current_main @ [Label cur_title]"
    by (simp add: drawn_current current_main_run fresh_def ax_text_def on_axes_def
        add_child_def artists_of_def current_figure_def)
  moreover have "\<not> isl (current_main (fresh (\<lambda>_. True)))"
    by (simp add: current_main_run fresh_def)
  moreover have "open_figs (state_of (current_main (fresh (\<lambda>_. True)))) = []"
    by (simp add: current_main_run fresh_def)
  ultimately show ?thesis by (simp add: new_images_current [OF w])
qed

text \<open>
  C2, amended. Neither script calls a populating operation after its export: each
  exports once, and the figure object it leaves behind is the figure of the image
  written. The code has no state of its own for "exported" and no check of it: a
  populating call on any axes, whatever has been saved or closed, appends its artist
  and changes neither the registry of open figures nor what has been written.
\<close>

theorem export_is_last:
  assumes "fs_writable st current_path" and "fs_writable st proposed_path"
  shows "map (\<lambda>pim. im_figure (snd pim)) (new_images current_main st)
           = [heap (state_of (current_main st)) (next_id st)]
       \<and> map (\<lambda>pim. im_figure (snd pim)) (new_images proposed_main st)
           = [heap (state_of (proposed_main st)) (next_id st)]
       \<and> artists_of (heap (insert_call a ax st) ax)
           = (if fig_axes (heap st ax) = None then [] else artists_of (heap st ax) @ [a])
       \<and> open_figs (insert_call a ax st) = open_figs st
       \<and> log (insert_call a ax st) = log st"
proof -
  have "artists_of (heap (insert_call a ax st) ax)
           = (if fig_axes (heap st ax) = None then [] else artists_of (heap st ax) @ [a])"
    by (auto simp add: insert_call_eq on_axes_def add_child_def artists_of_def)
  moreover have "open_figs (insert_call a ax st) = open_figs st"
    "log (insert_call a ax st) = log st"
    by (simp_all add: insert_call_eq on_axes_def)
  ultimately show ?thesis
    using assms
    by (simp add: new_images_current new_images_proposed current_main_run proposed_main_run)
qed

text \<open>The amended C2 for a new process whose file system accepts every write.\<close>

theorem export_is_last_witness:
  "fs_writable (fresh (\<lambda>_. True)) current_path
   \<and> fs_writable (fresh (\<lambda>_. True)) proposed_path
   \<and> map (\<lambda>pim. im_figure (snd pim)) (new_images current_main (fresh (\<lambda>_. True)))
       = [heap (state_of (current_main (fresh (\<lambda>_. True)))) 0]
   \<and> map (\<lambda>pim. im_figure (snd pim)) (new_images proposed_main (fresh (\<lambda>_. True)))
       = [heap (state_of (proposed_main (fresh (\<lambda>_. True)))) 0]"
proof -
  have w: "fs_writable (fresh (\<lambda>_. True)) p" for p by (simp add: fresh_def)
  have n: "next_id (fresh (\<lambda>_. True)) = 0" by (simp add: fresh_def)
  show ?thesis
    using export_is_last [OF w w] by (simp add: w n)
qed

text \<open>
  C3, as the code contradicts it. When the file system refuses the write, the
  current-architecture script ends with the exception of \<open>savefig\<close> and its figure is
  still registered as open: \<open>plt.close()\<close> follows \<open>plt.savefig\<close> without a
  \<open>try/finally\<close> and is never reached.
\<close>

theorem export_failure_leaves_figure_open:
  "isl (current_main (fresh (\<lambda>_. False)))
   \<and> open_figs (fresh (\<lambda>_. False)) = []
   \<and> open_figs (state_of (current_main (fresh (\<lambda>_. False)))) = [0]"
  by (simp add: current_main_run fresh_def)

text \<open>
  C3, amended. Each script releases its figure after a successful export, leaving the
  registry of open figures as it found it. When the export fails, the script ends with
  the exception, the figure it created stays registered as the current one, and nothing
  is written or printed.
\<close>

theorem released_iff_export_succeeds:
  "isl (current_main st) = (\<not> fs_writable st current_path)
   \<and> open_figs (state_of (current_main st)) =
       (if fs_writable st current_path then open_figs st else open_figs st @ [next_id st])
   \<and> log (state_of (current_main st)) =
       (if fs_writable st current_path
        then log st @ [Wrote current_path
                         \<lparr>im_dpi = 300, im_tight_bbox = True, im_figure = current_figure\<rparr>,
                       Printed current_message]
        else log st)
   \<and> isl (proposed_main st) = (\<not> fs_writable st proposed_path)
   \<and> open_figs (state_of (proposed_main st)) =
       (if fs_writable st proposed_path then open_figs st else open_figs st @ [next_id st])
   \<and> log (state_of (proposed_main st)) =
       (if fs_writable st proposed_path
        then log st @ [Wrote proposed_path
                         \<lparr>im_dpi = 300, im_tight_bbox = True, im_figure = proposed_figure\<rparr>,
                       Printed proposed_message]
        else log st)"
  by (simp add: current_main_run proposed_main_run)

text \<open>The amended C3 for a new process, once accepting and once refusing every write.\<close>

theorem released_iff_export_succeeds_witness:
  "open_figs (state_of (current_main (fresh (\<lambda>_. True)))) = []
   \<and> open_figs (state_of (proposed_main (fresh (\<lambda>_. True)))) = []
   \<and> open_figs (state_of (current_main (fresh (\<lambda>_. False)))) = [0]
   \<and> open_figs (state_of (proposed_main (fresh (\<lambda>_. False)))) = [0]
   \<and> log (state_of (proposed_main (fresh (\<lambda>_. False)))) = []"
  using released_iff_export_succeeds [of "fresh (\<lambda>_. True)"]
    released_iff_export_succeeds [of "fresh (\<lambda>_. False)"]
  by (simp add: fresh_def)

text \<open>
  C4, as the code contradicts it. In the current-architecture diagram the text
  \<open>Audit Logging Layer\<close> is inserted before the arrow from (5, 6) to (5, 2.7), whose
  segment passes through the text's anchor (5, 5); yet the arrow is drawn first and the
  text over it, because text has the higher z-order.
\<close>

theorem text_drawn_over_later_arrow:
  "before (drawn current_main) (Label audit_label) (Connector arrow2)
   \<and> before (draw_order (drawn current_main)) (Connector arrow2) (Label audit_label)
   \<and> segment_at arrow2 (10 / 33) = (tx audit_label, ty audit_label)"
proof -
  have a: "before (drawn current_main) (Label audit_label) (Connector arrow2)"
    by (simp add: drawn_current current_scene_def before_def pos_def
        mitm_components_def audit_components_def)
  have b: "before (draw_order (drawn current_main)) (Connector arrow2) (Label audit_label)"
    by (simp add: draw_order_layers drawn_current current_scene_def before_def pos_def
        mitm_components_def audit_components_def current_artist_defs primitive_defs)
  have c: "segment_at arrow2 (10 / 33) = (tx audit_label, ty audit_label)"
    by (simp add: segment_at_def arrow2_def audit_label_def primitive_defs)
  from a b c show ?thesis by blast
qed

text \<open>
  C4, amended. The artists of each diagram are drawn by z-order class, all boxes and
  connectors first and all text after them, and in insertion order within a class: a
  later box or connector draws over an earlier one, and every text draws over every box
  and connector whenever it was inserted. Each container is inserted, and drawn, before
  every connector and before every chip whose rectangle meets its own.
\<close>

theorem patches_below_text_containers_first:
  "draw_order (drawn current_main) =
     filter (\<lambda>a. zorder a = 1) (drawn current_main) @ filter (\<lambda>a. zorder a = 3) (drawn current_main)
   \<and> draw_order (drawn proposed_main) =
     filter (\<lambda>a. zorder a = 1) (drawn proposed_main) @ filter (\<lambda>a. zorder a = 3) (drawn proposed_main)
   \<and> containers_first (drawn current_main) current_containers current_chips
   \<and> containers_first (draw_order (drawn current_main)) current_containers current_chips
   \<and> containers_first (drawn proposed_main) proposed_containers proposed_chips
   \<and> containers_first (draw_order (drawn proposed_main)) proposed_containers proposed_chips"
  using containers_first_current containers_first_current_drawn containers_first_proposed
    containers_first_proposed_drawn
  by (simp add: draw_order_layers)

text \<open>
  The amended C4 at the MITM container and the first chip on it: their rectangles meet,
  and the container is drawn first.
\<close>

theorem patches_below_text_containers_first_witness:
  "boxes_overlap mitm_box (comp_box (''MonitorSSHAudit.java'', 1.5, 6.8))
   \<and> before (draw_order (drawn current_main)) (BoxPatch mitm_box)
        (BoxPatch (comp_box (''MonitorSSHAudit.java'', 1.5, 6.8)))"
proof -
  have o: "boxes_overlap mitm_box (comp_box (''MonitorSSHAudit.java'', 1.5, 6.8))"
    by (simp add: boxes_overlap_def outline_low_def outline_high_def mitm_box_def
        primitive_defs)
  have c: "mitm_box \<in> set current_containers"
    by (simp add: current_containers_def)
  have p: "comp_box (''MonitorSSHAudit.java'', 1.5, 6.8) \<in> set current_chips"
    by (simp add: current_chips_def mitm_components_def)
  from patches_below_text_containers_first
  have "containers_first (draw_order (drawn current_main)) current_containers current_chips"
    by blast
  with c p o show ?thesis
    unfolding containers_first_def list_all_iff by blast
qed

text \<open>
  C5, as the code contradicts it. The main container of the current-architecture
  diagram is given the position (0.5, 1) with extent 9 x 7.5; that position is the lower
  left corner of its rectangle, whose centre is (5, 4.75).
\<close>

theorem container_center_is_not_given_position:
  "BoxPatch main_box \<in> set (drawn current_main)
   \<and> xy main_box = (0.5, 1)
   \<and> box_center main_box = (5, 4.75)
   \<and> box_center main_box \<noteq> xy main_box"
  by (simp add: drawn_current current_scene_def box_center_def main_box_def FancyBboxPatch_def)

text \<open>
  C5, amended. Every container is a rounded rectangle around the box whose lower left
  corner is the position given and whose width and height are those given (the outline
  lies the style's pad outside that box), with the fill, border and opacity given; its
  centre is the position plus half the extent. Every chip of a component listed at (x, y) is a
  rounded rectangle of the loop's fixed width and height whose lower left corner is
  (x, y) minus half the extent, so that its centre is (x, y); the text that follows the
  chip is anchored at (x, y) and aligned on its centre horizontally and vertically.
\<close>

theorem boxes_from_corner_chips_centred:
  "map (\<lambda>p. (xy p, box_low p, box_high p, box_center p)) current_containers =
     [((0.5, 1), (0.5, 1), (9.5, 8.5), (5, 4.75)),
      ((1, 6), (1, 6), (9, 7.8), (5, 6.9)),
      ((1, 3.5), (1, 3.5), (9, 5.3), (5, 4.4)),
      ((1, 1.5), (1, 1.5), (9, 2.7), (5, 2.1))]
   \<and> map (\<lambda>p. (outline_low p, outline_high p)) current_containers =
     [((0.4, 0.9), (9.6, 8.6)), ((0.95, 5.95), (9.05, 7.85)),
      ((0.95, 3.45), (9.05, 5.35)), ((0.95, 1.45), (9.05, 2.75))]
   \<and> map (\<lambda>p. (outline_low p, outline_high p)) proposed_containers =
     [((0.4, 4.9), (5.1, 8.6)), ((6.9, 4.9), (11.6, 8.6)), ((5.2, 5.95), (6.8, 8.05))]
   \<and> map (\<lambda>p. (xy p, box_low p, box_high p, box_center p)) proposed_containers =
     [((0.5, 5), (0.5, 5), (5, 8.5), (2.75, 6.75)),
      ((7, 5), (7, 5), (11.5, 8.5), (9.25, 6.75)),
      ((5.25, 6), (5.25, 6), (6.75, 8), (6, 7))]
   \<and> map (\<lambda>p. (facecolor p, edgecolor p, linewidth p, alpha p)) current_containers =
     [(''#FF6B35'', ''black'', 2, Some 0.3), (''#F7931E'', ''black'', 1, Some 0.7),
      (''#4ECDC4'', ''black'', 1, Some 0.7), (''#45B7D1'', ''black'', 1, Some 0.7)]
   \<and> map (\<lambda>p. (facecolor p, edgecolor p, linewidth p, alpha p)) proposed_containers =
     [(''#CE422B'', ''black'', 2, Some 0.3), (''#FF6B35'', ''black'', 2, Some 0.3),
      (''#96CEB4'', ''black'', 2, Some 0.8)]
   \<and> list_all (\<lambda>p. BoxPatch p \<in> set (drawn current_main)) current_containers
   \<and> list_all (\<lambda>p. BoxPatch p \<in> set (drawn proposed_main)) proposed_containers
   \<and> list_all (\<lambda>(cmp, x, y).
        BoxPatch (comp_box (cmp, x, y)) \<in> set (drawn current_main) \<and>
        box_center (comp_box (cmp, x, y)) = (x, y) \<and>
        (width (comp_box (cmp, x, y)), height (comp_box (cmp, x, y))) = (0.8, 0.3) \<and>
        labelled_at (drawn current_main) (comp_box (cmp, x, y)) (x, y))
      (mitm_components @ audit_components)
   \<and> list_all (\<lambda>(cmp, x, y).
        BoxPatch (rust_comp_box (cmp, x, y)) \<in> set (drawn proposed_main) \<and>
        box_center (rust_comp_box (cmp, x, y)) = (x, y) \<and>
        (width (rust_comp_box (cmp, x, y)), height (rust_comp_box (cmp, x, y))) = (0.8, 0.5) \<and>
        labelled_at (drawn proposed_main) (rust_comp_box (cmp, x, y)) (x, y))
      rust_components
   \<and> list_all (\<lambda>(cmp, x, y).
        BoxPatch (java_comp_box (cmp, x, y)) \<in> set (drawn proposed_main) \<and>
        box_center (java_comp_box (cmp, x, y)) = (x, y) \<and>
        (width (java_comp_box (cmp, x, y)), height (java_comp_box (cmp, x, y))) = (0.8, 0.5) \<and>
        labelled_at (drawn proposed_main) (java_comp_box (cmp, x, y)) (x, y))
      java_components"
proof -
  have a: "map (\<lambda>p. (xy p, box_low p, box_high p, box_center p)) current_containers =
     [((0.5, 1), (0.5, 1), (9.5, 8.5), (5, 4.75)),
      ((1, 6), (1, 6), (9, 7.8), (5, 6.9)),
      ((1, 3.5), (1, 3.5), (9, 5.3), (5, 4.4)),
      ((1, 1.5), (1, 1.5), (9, 2.7), (5, 2.1))]"
    by (simp add: current_containers_def box_low_def box_high_def box_center_def
        main_box_def mitm_box_def audit_box_def cred_box_def FancyBboxPatch_def)
  have b: "map (\<lambda>p. (xy p, box_low p, box_high p, box_center p)) proposed_containers =
     [((0.5, 5), (0.5, 5), (5, 8.5), (2.75, 6.75)),
      ((7, 5), (7, 5), (11.5, 8.5), (9.25, 6.75)),
      ((5.25, 6), (5.25, 6), (6.75, 8), (6, 7))]"
    by (simp add: proposed_containers_def box_low_def box_high_def box_center_def
        rust_box_def java_box_def ipc_box_def FancyBboxPatch_def)
  have o: "map (\<lambda>p. (outline_low p, outline_high p)) current_containers =
     [((0.4, 0.9), (9.6, 8.6)), ((0.95, 5.95), (9.05, 7.85)),
      ((0.95, 3.45), (9.05, 5.35)), ((0.95, 1.45), (9.05, 2.75))]"
    by (simp add: current_containers_def outline_low_def outline_high_def
        main_box_def mitm_box_def audit_box_def cred_box_def FancyBboxPatch_def)
  have q: "map (\<lambda>p. (outline_low p, outline_high p)) proposed_containers =
     [((0.4, 4.9), (5.1, 8.6)), ((6.9, 4.9), (11.6, 8.6)), ((5.2, 5.95), (6.8, 8.05))]"
    by (simp add: proposed_containers_def outline_low_def outline_high_def
        rust_box_def java_box_def ipc_box_def FancyBboxPatch_def)
  have c: "map (\<lambda>p. (facecolor p, edgecolor p, linewidth p, alpha p)) current_containers =
     [(''#FF6B35'', ''black'', 2, Some 0.3), (''#F7931E'', ''black'', 1, Some 0.7),
      (''#4ECDC4'', ''black'', 1, Some 0.7), (''#45B7D1'', ''black'', 1, Some 0.7)]"
    by (simp add: current_containers_def main_box_def mitm_box_def audit_box_def cred_box_def
        FancyBboxPatch_def java_color_def mitm_color_def audit_color_def credential_color_def)
  have d: "map (\<lambda>p. (facecolor p, edgecolor p, linewidth p, alpha p)) proposed_containers =
     [(''#CE422B'', ''black'', 2, Some 0.3), (''#FF6B35'', ''black'', 2, Some 0.3),
      (''#96CEB4'', ''black'', 2, Some 0.8)]"
    by (simp add: proposed_containers_def rust_box_def java_box_def ipc_box_def
        FancyBboxPatch_def java_color_def rust_color_def ipc_color_def)
  have e: "list_all (\<lambda>p. BoxPatch p \<in> set (drawn current_main)) current_containers"
    by (simp add: drawn_current current_scene_def current_containers_def)
  have f: "list_all (\<lambda>p. BoxPatch p \<in> set (drawn proposed_main)) proposed_containers"
    by (simp add: drawn_proposed proposed_scene_def proposed_containers_def)
  have g: "list_all (\<lambda>(cmp, x, y).
        BoxPatch (comp_box (cmp, x, y)) \<in> set (drawn current_main) \<and>
        box_center (comp_box (cmp, x, y)) = (x, y) \<and>
        (width (comp_box (cmp, x, y)), height (comp_box (cmp, x, y))) = (0.8, 0.3) \<and>
        labelled_at (drawn current_main) (comp_box (cmp, x, y)) (x, y))
      (mitm_components @ audit_components)"
    by (simp add: drawn_current current_scene_def mitm_components_def audit_components_def
        box_center_def FancyBboxPatch_def Text_def)
  have h: "list_all (\<lambda>(cmp, x, y).
        BoxPatch (rust_comp_box (cmp, x, y)) \<in> set (drawn proposed_main) \<and>
        box_center (rust_comp_box (cmp, x, y)) = (x, y) \<and>
        (width (rust_comp_box (cmp, x, y)), height (rust_comp_box (cmp, x, y))) = (0.8, 0.5) \<and>
        labelled_at (drawn proposed_main) (rust_comp_box (cmp, x, y)) (x, y))
      rust_components"
    by (simp add: drawn_proposed proposed_scene_def rust_components_def
        box_center_def FancyBboxPatch_def Text_def)
  have i: "list_all (\<lambda>(cmp, x, y).
        BoxPatch (java_comp_box (cmp, x, y)) \<in> set (drawn proposed_main) \<and>
        box_center (java_comp_box (cmp, x, y)) = (x, y) \<and>
        (width (java_comp_box (cmp, x, y)), height (java_comp_box (cmp, x, y))) = (0.8, 0.5) \<and>
        labelled_at (drawn proposed_main) (java_comp_box (cmp, x, y)) (x, y))
      java_components"
    by (simp add: drawn_proposed proposed_scene_def rust_components_def java_components_def
        box_center_def FancyBboxPatch_def Text_def rust_box_def java_box_def)
  from a b o q c d e f g h i show ?thesis by blast
qed

text \<open>
  C6. Each script is deterministic: whatever state of the process it starts in, if the
  file system accepts the write it writes one image, and the image (path, resolution and
  the whole figure with every artist's geometry and text) is the same for any two
  starting states; in particular running the script again in the state its first run
  left behind writes the same image again.
\<close>

theorem rerun_same_images:
  assumes "fs_writable s1 current_path" and "fs_writable s1 proposed_path"
    and "fs_writable s2 current_path" and "fs_writable s2 proposed_path"
  shows "new_images current_main s1 = new_images current_main s2
       \<and> new_images current_main (state_of (current_main s1)) = new_images current_main s1
       \<and> length (new_images current_main s1) = 1
       \<and> new_images proposed_main s1 = new_images proposed_main s2
       \<and> new_images proposed_main (state_of (proposed_main s1)) = new_images proposed_main s1
       \<and> length (new_images proposed_main s1) = 1"
  using assms
  by (simp add: new_images_current new_images_proposed fs_writable_current fs_writable_proposed)

text \<open>
  C6 for a new process and for the state the other script leaves behind.
\<close>

theorem rerun_same_images_witness:
  "fs_writable (fresh (\<lambda>_. True)) current_path
   \<and> fs_writable (fresh (\<lambda>_. True)) proposed_path
   \<and> fs_writable (state_of (proposed_main (fresh (\<lambda>_. True)))) current_path
   \<and> fs_writable (state_of (proposed_main (fresh (\<lambda>_. True)))) proposed_path
   \<and> new_images current_main (fresh (\<lambda>_. True))
       = new_images current_main (state_of (proposed_main (fresh (\<lambda>_. True))))
   \<and> new_images current_main (state_of (current_main (fresh (\<lambda>_. True))))
       = new_images current_main (fresh (\<lambda>_. True))
   \<and> length (new_images current_main (fresh (\<lambda>_. True))) = 1
   \<and> new_images proposed_main (fresh (\<lambda>_. True))
       = new_images proposed_main (state_of (proposed_main (fresh (\<lambda>_. True))))
   \<and> new_images proposed_main (state_of (proposed_main (fresh (\<lambda>_. True))))
       = new_images proposed_main (fresh (\<lambda>_. True))
   \<and> length (new_images proposed_main (fresh (\<lambda>_. True))) = 1"
proof -
  have w1: "fs_writable (fresh (\<lambda>_. True)) p" for p by (simp add: fresh_def)
  have w2: "fs_writable (state_of (proposed_main (fresh (\<lambda>_. True)))) p" for p
    by (simp add: fs_writable_proposed w1)
  from rerun_same_images [OF w1 w1 w2 w2] w1 w2 show ?thesis
    by blast
qed

text \<open>
  C7. Each script, when the file system accepts the write, writes exactly one image
  file, at its fixed path, at 300 dpi with the bounding box tightened, and then prints
  exactly one line, its confirmation message.
\<close>

theorem one_file_then_one_line:
  assumes "fs_writable st ''docs/analysis/current-architecture.png''"
    and "fs_writable st ''docs/analysis/proposed-architecture.png''"
  shows "(\<exists>im. \<not> isl (current_main st) \<and>
           log (state_of (current_main st)) = log st @
             [Wrote ''docs/analysis/current-architecture.png'' im,
              Printed ''Current architecture diagram saved as: docs/analysis/current-architecture.png'']
           \<and> im_dpi im = 300 \<and> im_tight_bbox im)
    \<and> (\<exists>im. \<not> isl (proposed_main st) \<and>
           log (state_of (proposed_main st)) = log st @
             [Wrote ''docs/analysis/proposed-architecture.png'' im,
              Printed ''Proposed architecture diagram saved as: docs/analysis/proposed-architecture.png'']
           \<and> im_dpi im = 300 \<and> im_tight_bbox im)"
proof
  from assms(1) have "fs_writable st current_path" by (simp add: current_path_def)
  then show "\<exists>im. \<not> isl (current_main st) \<and>
           log (state_of (current_main st)) = log st @
             [Wrote ''docs/analysis/current-architecture.png'' im,
              Printed ''Current architecture diagram saved as: docs/analysis/current-architecture.png'']
           \<and> im_dpi im = 300 \<and> im_tight_bbox im"
    by (simp add: current_main_run) (simp add: current_path_def current_message_def)
  from assms(2) have "fs_writable st proposed_path" by (simp add: proposed_path_def)
  then show "\<exists>im. \<not> isl (proposed_main st) \<and>
           log (state_of (proposed_main st)) = log st @
             [Wrote ''docs/analysis/proposed-architecture.png'' im,
              Printed ''Proposed architecture diagram saved as: docs/analysis/proposed-architecture.png'']
           \<and> im_dpi im = 300 \<and> im_tight_bbox im"
    by (simp add: proposed_main_run) (simp add: proposed_path_def proposed_message_def)
qed

text \<open>C7 for a new process whose file system accepts every write.\<close>

theorem one_file_then_one_line_witness:
  "fs_writable (fresh (\<lambda>_. True)) ''docs/analysis/current-architecture.png''
   \<and> fs_writable (fresh (\<lambda>_. True)) ''docs/analysis/proposed-architecture.png''
   \<and> (\<exists>im. \<not> isl (current_main (fresh (\<lambda>_. True))) \<and>
         log (state_of (current_main (fresh (\<lambda>_. True)))) =
           [Wrote ''docs/analysis/current-architecture.png'' im,
            Printed ''Current architecture diagram saved as: docs/analysis/current-architecture.png'']
         \<and> im_dpi im = 300 \<and> im_tight_bbox im)
   \<and> (\<exists>im. \<not> isl (proposed_main (fresh (\<lambda>_. True))) \<and>
         log (state_of (proposed_main (fresh (\<lambda>_. True)))) =
           [Wrote ''docs/analysis/proposed-architecture.png'' im,
            Printed ''Proposed architecture diagram saved as: docs/analysis/proposed-architecture.png'']
         \<and> im_dpi im = 300 \<and> im_tight_bbox im)"
proof -
  have w: "fs_writable (fresh (\<lambda>_. True)) p" for p by (simp add: fresh_def)
  have l: "log (fresh (\<lambda>_. True)) = []" by (simp add: fresh_def)
  show ?thesis
    using one_file_then_one_line [OF w w] by (simp add: w l)
qed

text \<open>
  C8. Every coordinate given to a shape, a connector or a text lies within the limits
  of the axes it is placed on: [0,10] x [0,10] in the current-architecture diagram,
  [0,12] x [0,10] in the proposed-architecture diagram.
\<close>

theorem coordinates_within_limits:
  "map (\<lambda>im. limits (im_figure im)) (saved current_main) = [Some ((0, 10), (0, 10))]
   \<and> list_all (\<lambda>im. all_in_limits (im_figure im)) (saved current_main)
   \<and> map (\<lambda>im. limits (im_figure im)) (saved proposed_main) = [Some ((0, 12), (0, 10))]
   \<and> list_all (\<lambda>im. all_in_limits (im_figure im)) (saved proposed_main)"
proof -
  have c1: "limits current_figure = Some ((0, 10), (0, 10))"
    by (simp add: limits_def current_figure_def)
  have c2: "all_in_limits current_figure"
    by (simp add: all_in_limits_def current_figure_def current_scene_def in_limits_def
        box_low_def box_high_def mitm_components_def audit_components_def
        FancyBboxPatch_def ConnectionPatch_def Text_def arrow_kw_def
        cur_title_def main_box_def main_label_def mitm_box_def mitm_label_def audit_box_def
        audit_label_def cred_box_def cred_label_def cred_sublabel_def arrow1_def arrow2_def
        arrow3_def coupling_note_def client_note_def client_arrow_def problems_note_def)
  have p1: "limits proposed_figure = Some ((0, 12), (0, 10))"
    by (simp add: limits_def proposed_figure_def)
  have p2: "all_in_limits proposed_figure"
    by (simp add: all_in_limits_def proposed_figure_def proposed_scene_def in_limits_def
        box_low_def box_high_def rust_components_def java_components_def ipc_components_def
        enumerate_eq_zip
        FancyBboxPatch_def ConnectionPatch_def Text_def arrow_kw_def
        p_title_def rust_box_def rust_label_def java_box_def java_label_def ipc_box_def
        ipc_label_def ipc_arrow1_def ipc_arrow2_def ipc_arrow3_def ipc_arrow4_def
        native_note_def web_note_def client_arrow1_def client_arrow2_def database_note_def
        files_note_def db_arrow_def file_arrow_def benefits_note_def tech_note_def
        flow_note_def separation_line_def boundary_label_def)
  show ?thesis
    by (simp add: saved_current saved_proposed c1 c2 p1 p2)
qed

text \<open>
  C9, as the code contradicts it. The arrow of the current-architecture diagram from
  (0.8, 7) to (1, 7) has one head, at its end, but the tip of that head is not at the
  destination (1, 7): on the page, where the connector is about 19.41 points long, the
  tip lies at x < 0.94, more than 6 points before the destination.
\<close>

theorem arrow_tip_short_of_destination:
  "Connector client_arrow \<in> set (drawn current_main)
   \<and> heads (arrowstyle client_arrow) = (False, True)
   \<and> xyB client_arrow = (1, 7)
   \<and> head_tips 19.41 client_arrow = Some [(1 - (100 + 10 * sqrt 5) / 1941, 7)]
   \<and> 1 - (100 + 10 * sqrt 5) / 1941 < (0.94::real)"
proof -
  have a: "Connector client_arrow \<in> set (drawn current_main)"
    by (simp add: drawn_current current_scene_def)
  have b: "heads (arrowstyle client_arrow) = (False, True)" "xyB client_arrow = (1, 7)"
    by (simp_all add: client_arrow_def primitive_defs)
  have lw: "line_width client_arrow = 1"
    by (simp add: line_width_def client_arrow_def primitive_defs)
  have "head_tips 19.41 client_arrow =
      Some [along client_arrow (1 - (5 + line_width client_arrow * sqrt 5 / 2) / 19.41)]"
    by (rule head_tips_arrow) (simp_all add: client_arrow_def primitive_defs)
  then have tip: "head_tips 19.41 client_arrow =
      Some [along client_arrow (1 - (5 + sqrt 5 / 2) / 19.41)]"
    by (simp only: lw mult_1)
  have pts: "along client_arrow t = (0.8 + t * 0.2, 7)" for t
    by (simp add: along_def client_arrow_def primitive_defs of_rat_divide)
  have c: "head_tips 19.41 client_arrow = Some [(1 - (100 + 10 * sqrt 5) / 1941, 7)]"
    unfolding tip by (simp add: pts field_simps)
  have d: "1 - (100 + 10 * sqrt 5) / 1941 < (0.94::real)"
    using sqrt5_bounds(1) by simp
  from a b c d show ?thesis by blast
qed

text \<open>
  C9, amended. Every connector of the two diagrams is straight and no routing is
  applied: its path at every parameter \<open>t\<close> is the point at fraction \<open>t\<close> of the
  segment from the first given point to the second, and on a page where the connector
  is longer than 14 points the line drawn is a part of that segment, from 5 points
  after the first point to 5 points plus the line width times half the square root of 5
  before the second. Every arrow has a single head, at the end of the drawn line
  towards the second point; its tip is that end of the drawn line, not the point p2
  itself. The process-boundary line, which is no arrow, has no head and is drawn over
  the whole segment.
\<close>

theorem connectors_straight_one_head:
  assumes "14 < len"
  shows "list_all (\<lambda>c. path_at c t = segment_at c t \<and> path_at c 0 = xyA c \<and>
                 path_at c 1 = xyB c \<and> heads (arrowstyle c) = (False, True))
     (connectors (drawn current_main))
   \<and> list_all (\<lambda>c. path_at c t = segment_at c t \<and> path_at c 0 = xyA c \<and>
                 path_at c 1 = xyB c \<and>
                 heads (arrowstyle c) =
                   (if c = separation_line then (False, False) else (False, True)))
     (connectors (drawn proposed_main))
   \<and> length (connectors (drawn current_main)) = 4
   \<and> length (connectors (drawn proposed_main)) = 9
   \<and> list_all (\<lambda>c.
        if c = separation_line
        then drawn_span len c = Some (0, 1) \<and> head_tips len c = Some []
        else drawn_span len c = Some (5 / len, 1 - (5 + line_width c * sqrt 5 / 2) / len) \<and>
             0 < 5 / len \<and>
             5 / len < 1 - (5 + line_width c * sqrt 5 / 2) / len \<and>
             1 - (5 + line_width c * sqrt 5 / 2) / len < 1 \<and>
             head_tips len c = Some [along c (1 - (5 + line_width c * sqrt 5 / 2) / len)] \<and>
             along c (1 - (5 + line_width c * sqrt 5 / 2) / len) \<noteq> real_point (xyB c))
     (connectors (drawn current_main) @ connectors (drawn proposed_main))"
proof -
  have s: "connectionstyle c = Arc3 0 \<Longrightarrow>
      path_at c t = segment_at c t \<and> path_at c 0 = xyA c \<and> path_at c 1 = xyB c" for c
    by (simp add: path_straight segment_at_def)
  have cs: "list_all (\<lambda>c. connectionstyle c = Arc3 0)
      (connectors (drawn current_main) @ connectors (drawn proposed_main))"
    by (simp add: connectors_current connectors_proposed current_artist_defs
        proposed_artist_defs primitive_defs)
  have h1: "list_all (\<lambda>c. heads (arrowstyle c) = (False, True)) (connectors (drawn current_main))"
    by (simp add: connectors_current current_artist_defs primitive_defs)
  have h2: "list_all (\<lambda>c. heads (arrowstyle c) =
                   (if c = separation_line then (False, False) else (False, True)))
     (connectors (drawn proposed_main))"
    by (simp add: connectors_proposed proposed_artist_defs primitive_defs)
  from cs h1 h2 s have paths:
    "list_all (\<lambda>c. path_at c t = segment_at c t \<and> path_at c 0 = xyA c \<and>
                 path_at c 1 = xyB c \<and> heads (arrowstyle c) = (False, True))
       (connectors (drawn current_main))
     \<and> list_all (\<lambda>c. path_at c t = segment_at c t \<and> path_at c 0 = xyA c \<and>
                 path_at c 1 = xyB c \<and>
                 heads (arrowstyle c) =
                   (if c = separation_line then (False, False) else (False, True)))
       (connectors (drawn proposed_main))
     \<and> length (connectors (drawn current_main)) = 4
     \<and> length (connectors (drawn proposed_main)) = 9"
    by (simp add: list_all_iff connectors_current connectors_proposed)
  have page: "list_all (\<lambda>c.
        if c = separation_line
        then drawn_span len c = Some (0, 1) \<and> head_tips len c = Some []
        else drawn_span len c = Some (5 / len, 1 - (5 + line_width c * sqrt 5 / 2) / len) \<and>
             0 < 5 / len \<and>
             5 / len < 1 - (5 + line_width c * sqrt 5 / 2) / len \<and>
             1 - (5 + line_width c * sqrt 5 / 2) / len < 1 \<and>
             head_tips len c = Some [along c (1 - (5 + line_width c * sqrt 5 / 2) / len)] \<and>
             along c (1 - (5 + line_width c * sqrt 5 / 2) / len) \<noteq> real_point (xyB c))
     (connectors (drawn current_main) @ connectors (drawn proposed_main))"
    unfolding list_all_iff
  proof
    fix c
    assume "c \<in> set (connectors (drawn current_main) @ connectors (drawn proposed_main))"
    with connector_facts have st: "connectionstyle c = Arc3 0" and ne: "xyA c \<noteq> xyB c"
      and ms: "0 < mutation_scale c" and lw: "0 < line_width c" "line_width c \<le> 3"
      and kind: "if c = separation_line
                 then shrinkA c = 0 \<and> shrinkB c = 0 \<and> arrowstyle c = Plain
                 else shrinkA c = 5 \<and> shrinkB c = 5 \<and> arrowstyle c = Arrow"
      unfolding list_all_iff by blast+
    from assms have len: "0 < len" "10 < len" by simp_all
    show "if c = separation_line
        then drawn_span len c = Some (0, 1) \<and> head_tips len c = Some []
        else drawn_span len c = Some (5 / len, 1 - (5 + line_width c * sqrt 5 / 2) / len) \<and>
             0 < 5 / len \<and>
             5 / len < 1 - (5 + line_width c * sqrt 5 / 2) / len \<and>
             1 - (5 + line_width c * sqrt 5 / 2) / len < 1 \<and>
             head_tips len c = Some [along c (1 - (5 + line_width c * sqrt 5 / 2) / len)] \<and>
             along c (1 - (5 + line_width c * sqrt 5 / 2) / len) \<noteq> real_point (xyB c)"
    proof (cases "c = separation_line")
      case True
      with kind have k: "shrinkA c = 0" "shrinkB c = 0" "arrowstyle c = Plain" by simp_all
      from drawn_span_plain [OF st k len(1)] True show ?thesis by simp
    next
      case False
      with kind have k: "shrinkA c = 5" "shrinkB c = 5" "arrowstyle c = Arrow" by simp_all
      define p where "p = line_width c * sqrt 5 / 2"
      have "line_width c * sqrt 5 \<le> 3 * (9 / 4)"
        using lw sqrt5_bounds by (intro mult_mono) simp_all
      then have p_hi: "p < 4" by (simp add: p_def)
      have p_lo: "0 < p" using lw by (simp add: p_def)
      have f1: "0 < 5 / len" using len by simp
      have "5 + (5 + p) < len" using p_hi assms by simp
      then have "5 / len + (5 + p) / len < 1"
        using len by (simp add: add_divide_distrib [symmetric])
      then have f2: "5 / len < 1 - (5 + p) / len" by simp
      have "0 < 5 + p" using p_lo by simp
      then have "0 < (5 + p) / len" using len by simp
      then have f3: "1 - (5 + p) / len < 1" by linarith
      then have "1 - (5 + p) / len \<noteq> 1" by linarith
      with ne have f4: "along c (1 - (5 + p) / len) \<noteq> real_point (xyB c)"
        by (rule along_off_B)
      from drawn_span_arrow [OF st k ms len(2)] head_tips_arrow [OF st k ms len(2)]
        f1 f2 f3 f4 False
      show ?thesis by (simp add: p_def)
    qed
  qed
  from paths page show ?thesis by blast
qed

text \<open>The amended C9 on a page where the connectors are 30 points long.\<close>

theorem connectors_straight_one_head_witness:
  "(14::real) < 30
   \<and> head_tips 30 ipc_arrow1 = Some [along ipc_arrow1 (1 - (5 + 3 * sqrt 5 / 2) / 30)]
   \<and> drawn_span 30 separation_line = Some (0, 1)
   \<and> head_tips 30 separation_line = Some []"
proof -
  have l: "(14::real) < 30" by simp
  have a: "ipc_arrow1 \<in> set (connectors (drawn current_main) @ connectors (drawn proposed_main))"
    by (simp add: connectors_proposed)
  have s: "separation_line \<in> set (connectors (drawn current_main) @ connectors (drawn proposed_main))"
    by (simp add: connectors_proposed)
  have n: "ipc_arrow1 \<noteq> separation_line"
    by (simp add: ipc_arrow1_def separation_line_def primitive_defs)
  have lw: "line_width ipc_arrow1 = 3"
    by (simp add: line_width_def ipc_arrow1_def primitive_defs)
  from connectors_straight_one_head [OF l]
  have "list_all (\<lambda>c.
        if c = separation_line
        then drawn_span 30 c = Some (0, 1) \<and> head_tips 30 c = Some []
        else drawn_span 30 c = Some (5 / 30, 1 - (5 + line_width c * sqrt 5 / 2) / 30) \<and>
             (0::real) < 5 / 30 \<and>
             5 / 30 < 1 - (5 + line_width c * sqrt 5 / 2) / 30 \<and>
             1 - (5 + line_width c * sqrt 5 / 2) / 30 < 1 \<and>
             head_tips 30 c = Some [along c (1 - (5 + line_width c * sqrt 5 / 2) / 30)] \<and>
             along c (1 - (5 + line_width c * sqrt 5 / 2) / 30) \<noteq> real_point (xyB c))
     (connectors (drawn current_main) @ connectors (drawn proposed_main))"
    by blast
  then have "head_tips 30 ipc_arrow1 =
      Some [along ipc_arrow1 (1 - (5 + line_width ipc_arrow1 * sqrt 5 / 2) / 30)]"
    and "drawn_span 30 separation_line = Some (0, 1)"
    and "head_tips 30 separation_line = Some []"
    using a s n unfolding list_all_iff by (metis (no_types, lifting))+
  then show ?thesis using l by (simp only: lw)
qed

text \<open>
  C10. Chip labels are not the component strings themselves. In the current-architecture
  diagram the text anchored at each chip's position is the component string up to its
  first full stop, and not the whole string; the chip of \<open>MonitorSSHAudit.java\<close> at
  (1.5, 6.8) reads \<open>MonitorSSHAudit\<close>. In the proposed-architecture diagram the text
  anchored at each Java chip's position is the component string up to its first line
  break, and a separate italic text \<open>(UNCHANGED)\<close> is anchored 0.15 below it.
\<close>

theorem chip_labels_truncated:
  "list_all (\<lambda>(cmp, x, y).
       has_label (drawn current_main) x y (takeWhile (\<lambda>ch. ch \<noteq> CHR ''.'') cmp) \<and>
       \<not> has_label (drawn current_main) x y cmp)
     (mitm_components @ audit_components)
   \<and> has_label (drawn current_main) 1.5 6.8 ''MonitorSSHAudit''
   \<and> list_all (\<lambda>(cmp, x, y).
       has_label (drawn proposed_main) x y (takeWhile (\<lambda>ch. ch \<noteq> CHR 0x0A) cmp) \<and>
       \<not> has_label (drawn proposed_main) x y cmp \<and>
       has_italic (drawn proposed_main) x (y - 0.15) ''(UNCHANGED)'')
     java_components"
proof -
  have cur: "list_all (\<lambda>(cmp, x, y).
       has_label (drawn current_main) x y (takeWhile (\<lambda>ch. ch \<noteq> CHR ''.'') cmp) \<and>
       \<not> has_label (drawn current_main) x y cmp)
     (mitm_components @ audit_components)"
    unfolding drawn_current
    by (simp add: current_scene_def mitm_components_def audit_components_def has_label_def
        split0_takeWhile Text_def cur_title_def main_label_def mitm_label_def audit_label_def
        cred_label_def cred_sublabel_def coupling_note_def client_note_def problems_note_def)
  have one: "has_label (drawn current_main) 1.5 6.8 ''MonitorSSHAudit''"
    unfolding drawn_current
    by (simp add: current_scene_def mitm_components_def has_label_def split0_takeWhile Text_def)
  have jav: "list_all (\<lambda>(cmp, x, y).
       has_label (drawn proposed_main) x y (takeWhile (\<lambda>ch. ch \<noteq> CHR 0x0A) cmp) \<and>
       \<not> has_label (drawn proposed_main) x y cmp \<and>
       has_italic (drawn proposed_main) x (y - 0.15) ''(UNCHANGED)'')
     java_components"
    unfolding drawn_proposed
    by (simp add: proposed_scene_def java_components_def rust_components_def ipc_components_def
        enumerate_eq_zip has_label_def has_italic_def
        split0_takeWhile Text_def p_title_def rust_label_def java_label_def ipc_label_def
        native_note_def web_note_def database_note_def files_note_def benefits_note_def
        tech_note_def flow_note_def boundary_label_def)
  from cur one jav show ?thesis by blast
qed

end
